theory Spec2Isabelle
  imports Complex_Main
begin

section \<open>DZAIR sales ledger: the formula engine\<close>

text \<open>
  A model of the ledger core of \<^verbatim>\<open>main.py\<close>: the three formulas, the invoice
  sequencer \<^verbatim>\<open>generate_invoice_no\<close> and the handlers \<^verbatim>\<open>add_sale\<close>,
  \<^verbatim>\<open>refresh_sales\<close> and \<^verbatim>\<open>refresh_dashboard\<close> over the tables of the database.
  Widgets, charts and exports are left out.

  The prices, weights and profits are Python numbers (the REAL columns of the SQLite
  tables). They are modelled as exact rationals, so the rounding of binary floating point
  is outside the model; the integers (quantity, stock, sequence numbers) are unbounded, as
  Python's are, without the 64-bit limit of the storage.
\<close>

type_synonym money = rat

definition tot_livraison :: "money \<Rightarrow> money \<Rightarrow> money" where
  "tot_livraison weight delivery_price = (weight * 50) + delivery_price"

definition p_fayda :: "money \<Rightarrow> money \<Rightarrow> money \<Rightarrow> money" where
  "p_fayda selling_price tot_liv purchase_price = (selling_price - tot_liv) - purchase_price"

definition fayda_safia :: "money \<Rightarrow> money" where
  "fayda_safia pf = pf - 500"

section \<open>Python and SQLite text primitives\<close>

text \<open>
  Strings are lists of 8-bit characters. The definitions below are the parts of the Python
  and SQLite runtimes the program relies on: \<^verbatim>\<open>str.strip\<close>, \<^verbatim>\<open>int(str)\<close>,
  \<^verbatim>\<open>str(int)\<close>, the format \<^verbatim>\<open>{seq:03d}\<close>, \<^verbatim>\<open>s.split('-')[-1]\<close> and the SQL operator
  \<^verbatim>\<open>LIKE\<close> (case-insensitive on ASCII letters, \<^verbatim>\<open>%\<close> for any run of characters,
  \<^verbatim>\<open>_\<close> for one character).
\<close>

definition is_space :: "char \<Rightarrow> bool" where
  "is_space c = (let n = (of_char c :: nat)
     in (9 \<le> n \<and> n \<le> 13) \<or> (28 \<le> n \<and> n \<le> 32) \<or> n = 133 \<or> n = 160)"

definition strip :: "string \<Rightarrow> string" where
  "strip s = rev (dropWhile is_space (rev (dropWhile is_space s)))"

definition is_digit :: "char \<Rightarrow> bool" where
  "is_digit c = (48 \<le> (of_char c :: nat) \<and> (of_char c :: nat) \<le> 57)"

definition digit_val :: "char \<Rightarrow> nat" where
  "digit_val c = of_char c - 48"

definition digit_char :: "nat \<Rightarrow> char" where
  "digit_char n = char_of (48 + n)"

text \<open>The number a string of decimal digits denotes.\<close>

definition nat_of_digits :: "string \<Rightarrow> nat" where
  "nat_of_digits ds = foldl (\<lambda>a c. 10 * a + digit_val c) 0 ds"

text \<open>\<^verbatim>\<open>str(n)\<close> for a natural number.\<close>

fun str_nat :: "nat \<Rightarrow> string" where
  "str_nat n = (if n < 10 then [digit_char n] else str_nat (n div 10) @ [digit_char (n mod 10)])"

declare str_nat.simps [simp del]

text \<open>\<^verbatim>\<open>f"{seq:03d}"\<close>: zero-padded to width 3, the sign counted in the width.\<close>

definition fmt03d :: "int \<Rightarrow> string" where
  "fmt03d seq =
     (if seq < 0
      then CHR ''-'' # replicate (2 - length (str_nat (nat (- seq)))) CHR ''0'' @ str_nat (nat (- seq))
      else replicate (3 - length (str_nat (nat seq))) CHR ''0'' @ str_nat (nat seq))"

text \<open>
  \<^verbatim>\<open>int(s)\<close> on a string: surrounding whitespace is dropped, one sign is allowed, then
  decimal digits, where single underscores may separate digits. \<open>None\<close> stands for the
  \<^verbatim>\<open>ValueError\<close>.
\<close>

fun digits_acc :: "nat \<Rightarrow> string \<Rightarrow> nat option" where
  "digits_acc a [] = Some a"
| "digits_acc a (c # r) =
     (if is_digit c then digits_acc (10 * a + digit_val c) r
      else if c = CHR ''_'' then
        (case r of
           [] \<Rightarrow> None
         | d # r' \<Rightarrow> if is_digit d then digits_acc (10 * a + digit_val d) r' else None)
      else None)"

definition py_digits :: "string \<Rightarrow> nat option" where
  "py_digits t = (case t of [] \<Rightarrow> None
                  | c # r \<Rightarrow> if is_digit c then digits_acc (digit_val c) r else None)"

definition py_int :: "string \<Rightarrow> int option" where
  "py_int s =
     (case strip s of
        [] \<Rightarrow> None
      | c # r \<Rightarrow>
          if c = CHR ''-'' then map_option (\<lambda>n. - int n) (py_digits r)
          else if c = CHR ''+'' then map_option int (py_digits r)
          else map_option int (py_digits (c # r)))"

text \<open>\<^verbatim>\<open>s.split('-')[-1]\<close>: what follows the last hyphen (all of \<open>s\<close> when there is none).\<close>

definition last_segment :: "string \<Rightarrow> string" where
  "last_segment s = rev (takeWhile (\<lambda>c. c \<noteq> CHR ''-'') (rev s))"

definition lower_ascii :: "char \<Rightarrow> char" where
  "lower_ascii c = (if 65 \<le> (of_char c :: nat) \<and> (of_char c :: nat) \<le> 90
                    then char_of ((of_char c :: nat) + 32) else c)"

fun sql_like :: "string \<Rightarrow> string \<Rightarrow> bool" where
  "sql_like [] [] = True"
| "sql_like [] (c # t) = False"
| "sql_like (p # ps) [] = (p = CHR ''%'' \<and> sql_like ps [])"
| "sql_like (p # ps) (c # t) =
     (if p = CHR ''%'' then sql_like ps (c # t) \<or> sql_like (p # ps) t
      else (p = CHR ''_'' \<or> lower_ascii p = lower_ascii c) \<and> sql_like ps t)"

section \<open>The ledger: tables, forms and the application state\<close>

text \<open>
  The rows of the tables \<^verbatim>\<open>Clients\<close>, \<^verbatim>\<open>Products\<close> and \<^verbatim>\<open>Sales\<close> created by
  \<^verbatim>\<open>init_db\<close>. The product columns \<^verbatim>\<open>weight\<close>, \<^verbatim>\<open>default_delivery_price\<close> and
  \<^verbatim>\<open>selling_price\<close> may hold NULL (\<open>None\<close>), which \<^verbatim>\<open>add_sale\<close> reads with
  \<^verbatim>\<open>or 0\<close>; \<^verbatim>\<open>purchase_price\<close> is declared NOT NULL. The accumulators
  \<^verbatim>\<open>total_spent\<close>, \<^verbatim>\<open>total_orders\<close> and \<^verbatim>\<open>stock_qty\<close> (DEFAULT 0) and the
  columns of a sale hold values, as the application writes them.
\<close>

record client =
  c_name :: string
  c_phone :: string
  c_address :: string
  c_city :: string
  total_spent :: money
  total_orders :: int

record product =
  p_name :: string
  purchase_price :: money
  weight :: "money option"
  default_delivery_price :: "money option"
  selling_price :: "money option"
  stock_qty :: int

record sale =
  sale_id :: nat
  invoice_no :: string
  client_id :: nat
  product_id :: nat
  quantity :: int
  s_purchase_price :: money
  s_selling_price :: money
  s_weight :: money
  s_delivery_price :: money
  s_tot_livraison :: money
  s_p_fayda :: money
  s_fayda_safia :: money
  payment_method :: string
  status :: string
  paid :: int
  date :: string

text \<open>
  One line of the sales view: \<^verbatim>\<open>sale_id, invoice_no, date, client, product, qty,
  selling_price, tot_livraison, p_fayda, fayda_safia, status\<close>. The two names come from a
  LEFT JOIN and are \<open>None\<close> when the client or product row is missing.
\<close>

type_synonym tree_row =
  "nat \<times> string \<times> string \<times> string option \<times> string option \<times> int \<times> money \<times> money \<times> money \<times> money \<times> string"

text \<open>
  The state of the running application: the three tables (association lists keyed by the
  primary key, the sales in the order of the table), the AUTOINCREMENT counter of
  \<^verbatim>\<open>Sales\<close>, the two dictionaries \<^verbatim>\<open>self.client_map\<close> and \<^verbatim>\<open>self.product_map\<close>
  that \<^verbatim>\<open>refresh_sales\<close> fills, and the lines shown in \<^verbatim>\<open>self.sales_tree\<close>.
\<close>

record app =
  clients :: "(nat \<times> client) list"
  products :: "(nat \<times> product) list"
  sales :: "sale list"
  sales_seq :: nat
  client_map :: "string \<rightharpoonup> nat"
  product_map :: "string \<rightharpoonup> nat"
  sales_tree :: "tree_row list"

text \<open>The entry widgets a handler reads: the sale form and the toolbar filters.\<close>

record sale_form =
  sale_client :: string
  sale_product :: string
  sale_qty :: string
  sale_delivery :: string
  sale_payment :: string
  sale_status :: string

record filters =
  search_var :: string
  date_from :: string
  date_to :: string

text \<open>
  Three library functions are parameters of the model, so that every theorem holds for
  whatever they accept:
  \<^item> \<open>fromisoformat\<close>: the \<^verbatim>\<open>.year\<close> of \<^verbatim>\<open>datetime.fromisoformat(s)\<close>, \<open>None\<close> when it
    raises \<^verbatim>\<open>ValueError\<close>;
  \<^item> \<open>sqlite_date\<close>: the calendar day (year, month, day) that SQLite's \<^verbatim>\<open>date(s)\<close>
    yields, \<open>None\<close> for NULL;
  \<^item> \<open>py_float\<close>: the value of \<^verbatim>\<open>float(s)\<close>, \<open>None\<close> when it raises.
\<close>

record library =
  fromisoformat :: "string \<Rightarrow> nat option"
  sqlite_date :: "string \<Rightarrow> (nat \<times> nat \<times> nat) option"
  py_float :: "string \<Rightarrow> money option"

text \<open>
  How a handler ends without doing its work: \<open>Dialog title message\<close> is
  \<^verbatim>\<open>messagebox.showerror(title, message); return\<close>, the other two are exceptions that
  leave the handler (\<^verbatim>\<open>sqlite3.IntegrityError\<close> from the UNIQUE column
  \<^verbatim>\<open>invoice_no\<close>, \<^verbatim>\<open>ValueError\<close> from \<^verbatim>\<open>datetime.fromisoformat\<close>).
\<close>

datatype error = Dialog string string | IntegrityError | ValueError

section \<open>The invoice sequencer\<close>

text \<open>\<^verbatim>\<open>ORDER BY sale_id DESC\<close>.\<close>

definition order_by_sale_id_desc :: "sale list \<Rightarrow> sale list" where
  "order_by_sale_id_desc rows = rev (sort_key sale_id rows)"

text \<open>
  \<^verbatim>\<open>generate_invoice_no(conn, date_str=None)\<close>. \<open>today\<close> is
  \<^verbatim>\<open>datetime.now().strftime("%Y-%m-%d")\<close>, read only when no date is given; \<open>rows\<close> is
  the table \<^verbatim>\<open>Sales\<close>.
\<close>

definition generate_invoice_no :: "library \<Rightarrow> string \<Rightarrow> sale list \<Rightarrow> string option \<Rightarrow> error + string" where
  "generate_invoice_no L today rows date_str =
     (let ds = (case date_str of None \<Rightarrow> today | Some d \<Rightarrow> d)
      in case fromisoformat L ds of
           None \<Rightarrow> Inl ValueError
         | Some year \<Rightarrow>
             (let row = order_by_sale_id_desc
                          (filter (\<lambda>r. sql_like (''DZAIR-'' @ str_nat year @ ''-%'') (invoice_no r)) rows);
                  seq = (case row of
                           [] \<Rightarrow> 1
                         | r # _ \<Rightarrow>
                             (case py_int (last_segment (invoice_no r)) of
                                Some n \<Rightarrow> n + 1
                              | None \<Rightarrow> 1))
              in Inr (''DZAIR-'' @ str_nat year @ ''-'' @ fmt03d seq)))"

text \<open>
  Three names for parts of \<open>generate_invoice_no\<close>, used to state its properties: the LIKE
  pattern of a year, the identifier built from a year and a sequence number, and the
  sequence number the function computes from the table for a year.
\<close>

definition invoice_pattern :: "nat \<Rightarrow> string" where
  "invoice_pattern year = ''DZAIR-'' @ str_nat year @ ''-%''"

definition invoice_text :: "nat \<Rightarrow> int \<Rightarrow> string" where
  "invoice_text year seq = ''DZAIR-'' @ str_nat year @ ''-'' @ fmt03d seq"

definition next_seq :: "nat \<Rightarrow> sale list \<Rightarrow> int" where
  "next_seq year rows =
     (case order_by_sale_id_desc (filter (\<lambda>r. sql_like (invoice_pattern year) (invoice_no r)) rows) of
        [] \<Rightarrow> 1
      | r # _ \<Rightarrow> (case py_int (last_segment (invoice_no r)) of Some n \<Rightarrow> n + 1 | None \<Rightarrow> 1))"

section \<open>The sales view\<close>

text \<open>
  The keys of the two dictionaries are \<^verbatim>\<open>f"{name} ({id})"\<close>. A dictionary comprehension
  keeps the last row of a repeated key.
\<close>

definition key_of :: "string \<Rightarrow> nat \<Rightarrow> string" where
  "key_of name i = name @ '' ('' @ str_nat i @ '')''"

definition build_map :: "(nat \<times> string) list \<Rightarrow> (string \<rightharpoonup> nat)" where
  "build_map rows = map_of (rev (map (\<lambda>(i, name). (key_of name i, i)) rows))"

text \<open>
  The WHERE clause. A comparison or a LIKE with a NULL operand is NULL, and a row is kept
  only when the whole condition is true.
\<close>

definition like_null :: "string option \<Rightarrow> string \<Rightarrow> bool" where
  "like_null v pat = (case v of None \<Rightarrow> False | Some t \<Rightarrow> sql_like pat t)"

fun day_le :: "nat \<times> nat \<times> nat \<Rightarrow> nat \<times> nat \<times> nat \<Rightarrow> bool" where
  "day_le (y, m, d) (y', m', d') = (y < y' \<or> (y = y' \<and> (m < m' \<or> (m = m' \<and> d \<le> d'))))"

definition date_ge_null :: "(nat \<times> nat \<times> nat) option \<Rightarrow> (nat \<times> nat \<times> nat) option \<Rightarrow> bool" where
  "date_ge_null a b = (case a of None \<Rightarrow> False
                       | Some x \<Rightarrow> (case b of None \<Rightarrow> False | Some y \<Rightarrow> day_le y x))"

definition client_name :: "app \<Rightarrow> sale \<Rightarrow> string option" where
  "client_name st r = map_option c_name (map_of (clients st) (client_id r))"

definition product_name :: "app \<Rightarrow> sale \<Rightarrow> string option" where
  "product_name st r = map_option p_name (map_of (products st) (product_id r))"

definition sales_where :: "library \<Rightarrow> app \<Rightarrow> string \<Rightarrow> string \<Rightarrow> string \<Rightarrow> sale \<Rightarrow> bool" where
  "sales_where L st s df dt r =
     ((s = [] \<or> like_null (client_name st r) (''%'' @ s @ ''%'')
              \<or> like_null (product_name st r) (''%'' @ s @ ''%'')
              \<or> sql_like (''%'' @ s @ ''%'') (invoice_no r)
              \<or> sql_like (''%'' @ s @ ''%'') (status r))
      \<and> (df = [] \<or> date_ge_null (sqlite_date L (date r)) (sqlite_date L df))
      \<and> (dt = [] \<or> date_ge_null (sqlite_date L dt) (sqlite_date L (date r))))"

definition tree_values :: "app \<Rightarrow> sale \<Rightarrow> tree_row" where
  "tree_values st r =
     (sale_id r, invoice_no r, date r, client_name st r, product_name st r, quantity r,
      s_selling_price r, s_tot_livraison r, s_p_fayda r, s_fayda_safia r, status r)"

text \<open>
  \<^verbatim>\<open>refresh_sales\<close>: the dictionaries are rebuilt first; a date bound that
  \<^verbatim>\<open>datetime.fromisoformat\<close> rejects ends the handler with a dialog before the view
  is touched; otherwise the view is replaced by the selected sales, newest first.
\<close>

definition refresh_sales :: "library \<Rightarrow> filters \<Rightarrow> app \<Rightarrow> error option \<times> app" where
  "refresh_sales L flt st =
     (let st1 = st\<lparr>client_map := build_map (map (\<lambda>(i, c). (i, c_name c)) (clients st)),
                    product_map := build_map (map (\<lambda>(i, p). (i, p_name p)) (products st))\<rparr>;
          s = strip (search_var flt);
          df = strip (date_from flt);
          dt = strip (date_to flt)
      in if df \<noteq> [] \<and> fromisoformat L df = None
           then (Some (Dialog ''Date Error'' ''From date must be YYYY-MM-DD''), st1)
         else if dt \<noteq> [] \<and> fromisoformat L dt = None
           then (Some (Dialog ''Date Error'' ''To date must be YYYY-MM-DD''), st1)
         else (None, st1\<lparr>sales_tree :=
                 map (tree_values st)
                   (order_by_sale_id_desc (filter (sales_where L st s df dt) (sales st)))\<rparr>))"

section \<open>Recording a sale\<close>

text \<open>
  The three statements of \<^verbatim>\<open>add_sale\<close>. The INSERT takes the next AUTOINCREMENT key
  and fails on an invoice number already in the table; an UPDATE changes every row with
  the given key and no other.
\<close>

definition next_sale_id :: "app \<Rightarrow> nat" where
  "next_sale_id st = Suc (max (sales_seq st) (fold max (map sale_id (sales st)) 0))"

definition insert_sale :: "sale \<Rightarrow> app \<Rightarrow> error + app" where
  "insert_sale row st =
     (if invoice_no row \<in> set (map invoice_no (sales st)) then Inl IntegrityError
      else Inr (st\<lparr>sales := sales st @ [row\<lparr>sale_id := next_sale_id st\<rparr>],
                   sales_seq := next_sale_id st\<rparr>))"

definition update_client :: "money \<Rightarrow> nat \<Rightarrow> app \<Rightarrow> app" where
  "update_client amount cid st =
     st\<lparr>clients := map (\<lambda>(i, c). if i = cid
                                   then (i, c\<lparr>total_spent := total_spent c + amount,
                                              total_orders := total_orders c + 1\<rparr>)
                                   else (i, c)) (clients st)\<rparr>"

definition update_product :: "int \<Rightarrow> nat \<Rightarrow> app \<Rightarrow> app" where
  "update_product qty pid st =
     st\<lparr>products := map (\<lambda>(i, p). if i = pid then (i, p\<lparr>stock_qty := stock_qty p - qty\<rparr>)
                                    else (i, p)) (products st)\<rparr>"

text \<open>
  The values \<^verbatim>\<open>add_sale\<close> computes for the new row from the product row \<open>pr\<close>: the
  snapshot of the prices and the weight (NULL read as 0), the delivery price (the one
  typed in, else the product's default), the three derived fields and the paid flag. The
  key \<open>sale_id\<close> is assigned by the INSERT.
\<close>

definition sale_values ::
  "string \<Rightarrow> nat \<Rightarrow> nat \<Rightarrow> int \<Rightarrow> product \<Rightarrow> money option \<Rightarrow> string \<Rightarrow> string \<Rightarrow> string \<Rightarrow> sale" where
  "sale_values invoice cid pid qty pr delivery payment stat date_str =
     (let w = (case weight pr of None \<Rightarrow> 0 | Some v \<Rightarrow> v);
          default_del = (case default_delivery_price pr of None \<Rightarrow> 0 | Some v \<Rightarrow> v);
          sp = (case selling_price pr of None \<Rightarrow> 0 | Some v \<Rightarrow> v);
          dp = (case delivery of None \<Rightarrow> default_del | Some v \<Rightarrow> v);
          tot_liv = tot_livraison w dp;
          pf = p_fayda sp tot_liv (purchase_price pr);
          fs = fayda_safia pf
      in \<lparr>sale_id = 0, invoice_no = invoice, client_id = cid, product_id = pid,
          quantity = qty, s_purchase_price = purchase_price pr, s_selling_price = sp,
          s_weight = w, s_delivery_price = dp, s_tot_livraison = tot_liv, s_p_fayda = pf,
          s_fayda_safia = fs, payment_method = payment, status = stat,
          paid = (if stat = ''Delivered'' then 1 else 0), date = date_str\<rparr>)"

text \<open>
  How \<^verbatim>\<open>add_sale\<close> reads its entry fields: \<^verbatim>\<open>int(qty or 1)\<close>, the delivery price
  \<^verbatim>\<open>float(d) if d.strip() else None\<close> (the outer \<open>None\<close> is the exception, the inner one
  the absent override), and \<^verbatim>\<open>text or default\<close>.
\<close>

definition qty_input :: "string \<Rightarrow> int option" where
  "qty_input s = (if s = [] then Some 1 else py_int s)"

definition delivery_input :: "library \<Rightarrow> string \<Rightarrow> money option option" where
  "delivery_input L s = (if strip s = [] then Some None else map_option Some (py_float L s))"

definition or_default :: "string \<Rightarrow> string \<Rightarrow> string" where
  "or_default s d = (if s = [] then d else s)"

text \<open>
  \<^verbatim>\<open>add_sale\<close>. \<open>today\<close> is \<^verbatim>\<open>datetime.now().strftime("%Y-%m-%d")\<close>. The result
  is the error that ended the handler or the invoice number shown in the
  \<^verbatim>\<open>"Sale Added"\<close> box, with the state the handler leaves behind; a successful call
  ends with \<^verbatim>\<open>self.refresh_sales()\<close>.
\<close>

definition add_sale :: "library \<Rightarrow> sale_form \<Rightarrow> filters \<Rightarrow> string \<Rightarrow> app \<Rightarrow> (error + string) \<times> app" where
  "add_sale L f flt today st =
     (case client_map st (sale_client f) of
        None \<Rightarrow> (Inl (Dialog ''Validation'' ''Select valid client and product''), st)
      | Some cid \<Rightarrow>
     (case product_map st (sale_product f) of
        None \<Rightarrow> (Inl (Dialog ''Validation'' ''Select valid client and product''), st)
      | Some pid \<Rightarrow>
     (case qty_input (sale_qty f) of
        None \<Rightarrow> (Inl (Dialog ''Validation'' ''Quantity must be integer''), st)
      | Some qty \<Rightarrow>
     (case delivery_input L (sale_delivery f) of
        None \<Rightarrow> (Inl (Dialog ''Validation'' ''Delivery must be numeric''), st)
      | Some delivery \<Rightarrow>
     (case map_of (products st) pid of
        None \<Rightarrow> (Inl (Dialog ''Error'' ''Product not found''), st)
      | Some pr \<Rightarrow>
     (case generate_invoice_no L today (sales st) (Some today) of
        Inl e \<Rightarrow> (Inl e, st)
      | Inr invoice \<Rightarrow>
     (let row = sale_values invoice cid pid qty pr delivery
                  (or_default (sale_payment f) ''Cash'')
                  (or_default (sale_status f) ''Pending'') today
      in case insert_sale row st of
           Inl e \<Rightarrow> (Inl e, st)
         | Inr st1 \<Rightarrow>
             (Inr invoice,
              snd (refresh_sales L flt
                     (update_product qty pid
                        (update_client (s_selling_price row * of_int qty) cid st1)))))))))))"

section \<open>The dashboard totals\<close>

text \<open>SQL \<^verbatim>\<open>SUM\<close> is NULL on no rows.\<close>

definition sql_sum :: "money list \<Rightarrow> money option" where
  "sql_sum xs = (case xs of [] \<Rightarrow> None | _ # _ \<Rightarrow> Some (sum_list xs))"

text \<open>
  \<^verbatim>\<open>refresh_dashboard\<close>: the three numbers it computes for the labels
  (\<^verbatim>\<open>sales_count\<close>, \<^verbatim>\<open>total_profit\<close>, \<^verbatim>\<open>total_delivery\<close>), before they are
  formatted for display.
\<close>

definition refresh_dashboard :: "app \<Rightarrow> int \<times> money \<times> money" where
  "refresh_dashboard st =
     (int (length (sales st)),
      (case sql_sum (map s_p_fayda (sales st)) of None \<Rightarrow> 0 | Some v \<Rightarrow> v),
      (case sql_sum (map s_tot_livraison (sales st)) of None \<Rightarrow> 0 | Some v \<Rightarrow> v))"

section \<open>A session of calls\<close>


section \<open>A sample library and sample states\<close>

text \<open>
  To run the model on concrete inputs the three library functions are instantiated on the
  inputs the application itself produces: dates written \<^verbatim>\<open>YYYY-MM-DD\<close> (as
  \<^verbatim>\<open>strftime("%Y-%m-%d")\<close> writes them) and whole numbers.
\<close>

definition days_in_month :: "nat \<Rightarrow> nat \<Rightarrow> nat" where
  "days_in_month y m =
     (if m = 2 then (if y mod 4 = 0 \<and> (y mod 100 \<noteq> 0 \<or> y mod 400 = 0) then 29 else 28)
      else if m = 4 \<or> m = 6 \<or> m = 9 \<or> m = 11 then 30 else 31)"

definition iso_day :: "string \<Rightarrow> (nat \<times> nat \<times> nat) option" where
  "iso_day s =
     (if length s = 10 \<and> s ! 4 = CHR ''-'' \<and> s ! 7 = CHR ''-''
         \<and> list_all is_digit (take 4 s @ take 2 (drop 5 s) @ drop 8 s)
      then (let y = nat_of_digits (take 4 s);
                m = nat_of_digits (take 2 (drop 5 s));
                d = nat_of_digits (drop 8 s)
            in if 1 \<le> y \<and> 1 \<le> m \<and> m \<le> 12 \<and> 1 \<le> d \<and> d \<le> days_in_month y m
               then Some (y, m, d) else None)
      else None)"

definition sample_library :: library where
  "sample_library =
     \<lparr>fromisoformat = (\<lambda>s. map_option fst (iso_day s)),
      sqlite_date = iso_day,
      py_float = (\<lambda>s. map_option of_int (py_int s))\<rparr>"

definition no_filters :: filters where
  "no_filters = \<lparr>search_var = [], date_from = [], date_to = []\<rparr>"

definition sample_client :: client where
  "sample_client = \<lparr>c_name = ''Ali'', c_phone = ''0550'', c_address = ''Rue 1'', c_city = ''Alger'',
                     total_spent = 0, total_orders = 0\<rparr>"

definition sample_product :: product where
  "sample_product = \<lparr>p_name = ''Lamp'', purchase_price = 1000, weight = Some 2,
                      default_delivery_price = Some 200, selling_price = Some 3000, stock_qty = 5\<rparr>"

definition sample_app :: app where
  "sample_app =
     \<lparr>clients = [(1, sample_client)], products = [(1, sample_product)], sales = [], sales_seq = 0,
      client_map = build_map [(1, ''Ali'')], product_map = build_map [(1, ''Lamp'')],
      sales_tree = []\<rparr>"

definition sample_form :: sale_form where
  "sample_form = \<lparr>sale_client = ''Ali (1)'', sale_product = ''Lamp (1)'', sale_qty = ''2'',
                   sale_delivery = [], sale_payment = [], sale_status = ''Delivered''\<rparr>"

text \<open>
  Two states a database file can be in when \<^verbatim>\<open>add_sale\<close> runs: the client row was
  removed after the dictionaries were filled, and a product row with NULL in the three
  nullable columns.
\<close>

definition stale_app :: app where
  "stale_app = sample_app\<lparr>clients := []\<rparr>"

definition null_product :: product where
  "null_product = \<lparr>p_name = ''Lamp'', purchase_price = 1000, weight = None,
                    default_delivery_price = None, selling_price = None, stock_qty = 5\<rparr>"

definition null_app :: app where
  "null_app = sample_app\<lparr>products := [(1, null_product)]\<rparr>"

text \<open>A sale of the sample product with a given key, invoice number and date.\<close>

definition sample_sale :: "nat \<Rightarrow> string \<Rightarrow> string \<Rightarrow> sale" where
  "sample_sale i ino d =
     (sale_values ino 1 1 1 sample_product None ''Cash'' ''Pending'' d)\<lparr>sale_id := i\<rparr>"


text \<open>A table with four dated sales and a filter for January 2024.\<close>

definition dated_app :: app where
  "dated_app = sample_app\<lparr>sales :=
     [sample_sale 1 ''DZAIR-2023-001'' ''2023-12-31'', sample_sale 2 ''DZAIR-2024-001'' ''2024-01-01'',
      sample_sale 3 ''DZAIR-2024-002'' ''2024-01-31'', sample_sale 4 ''DZAIR-2024-003'' ''2024-02-01'']\<rparr>"

definition january :: filters where
  "january = \<lparr>search_var = [], date_from = ''2024-01-01'', date_to = ''2024-01-31''\<rparr>"

text \<open>
  \<^verbatim>\<open>datetime.fromisoformat\<close> reads more than a day: it also accepts a day followed by one
  separator character and an hour, as in \<^verbatim>\<open>2024-01-01T10\<close>. SQLite's \<^verbatim>\<open>date()\<close> reads a
  time of day only from the minutes on (\<^verbatim>\<open>HH:MM\<close>), so it gives NULL on that text. The
  second sample library has this \<^verbatim>\<open>fromisoformat\<close> beside the same \<^verbatim>\<open>date()\<close>.
\<close>

definition iso_hour :: "string \<Rightarrow> nat option" where
  "iso_hour s =
     (if length s = 13 \<and> list_all is_digit (drop 11 s) \<and> nat_of_digits (drop 11 s) < 24
      then map_option fst (iso_day (take 10 s))
      else map_option fst (iso_day s))"

definition hour_library :: library where
  "hour_library = sample_library\<lparr>fromisoformat := iso_hour\<rparr>"

definition from_hour :: filters where
  "from_hour = january\<lparr>date_from := ''2024-01-01T10''\<rparr>"

section \<open>Facts about the handlers\<close>

lemma refresh_sales_tables:
  "clients (snd (refresh_sales L flt st)) = clients st"
  "products (snd (refresh_sales L flt st)) = products st"
  "sales (snd (refresh_sales L flt st)) = sales st"
  "sales_seq (snd (refresh_sales L flt st)) = sales_seq st"
  by (simp_all add: refresh_sales_def Let_def)


lemma add_sale_success:
  assumes ok: "add_sale L f flt today st = (Inr ino, st')"
  obtains cid pid qty delivery pr st1 where
    "client_map st (sale_client f) = Some cid"
    "product_map st (sale_product f) = Some pid"
    "qty_input (sale_qty f) = Some qty"
    "delivery_input L (sale_delivery f) = Some delivery"
    "map_of (products st) pid = Some pr"
    "generate_invoice_no L today (sales st) (Some today) = Inr ino"
    "insert_sale (sale_values ino cid pid qty pr delivery
        (or_default (sale_payment f) ''Cash'')
        (or_default (sale_status f) ''Pending'') today) st = Inr st1"
    "st' = snd (refresh_sales L flt (update_product qty pid
             (update_client (s_selling_price (sale_values ino cid pid qty pr delivery
        (or_default (sale_payment f) ''Cash'')
        (or_default (sale_status f) ''Pending'') today) * of_int qty) cid st1)))"
proof -
  obtain cid where c: "client_map st (sale_client f) = Some cid"
    using ok by (cases "client_map st (sale_client f)") (simp_all add: add_sale_def)
  obtain pid where p: "product_map st (sale_product f) = Some pid"
    using ok c by (cases "product_map st (sale_product f)") (simp_all add: add_sale_def)
  obtain qty where q: "qty_input (sale_qty f) = Some qty"
    using ok c p
    by (cases "qty_input (sale_qty f)")
       (simp_all add: add_sale_def)
  obtain delivery where d: "delivery_input L (sale_delivery f) = Some delivery"
    using ok c p q
    by (cases "delivery_input L (sale_delivery f)")
       (simp_all add: add_sale_def)
  obtain pr where r: "map_of (products st) pid = Some pr"
    using ok c p q d by (cases "map_of (products st) pid") (simp_all add: add_sale_def)
  have g: "generate_invoice_no L today (sales st) (Some today) = Inr ino"
    using ok c p q d r
    by (cases "generate_invoice_no L today (sales st) (Some today)")
       (simp_all add: add_sale_def Let_def split: sum.splits)
  let ?row = "sale_values ino cid pid qty pr delivery
        (or_default (sale_payment f) ''Cash'')
        (or_default (sale_status f) ''Pending'') today"
  obtain st1 where i: "insert_sale ?row st = Inr st1"
    using ok c p q d r g by (cases "insert_sale ?row st") (simp_all add: add_sale_def Let_def)
  have "st' = snd (refresh_sales L flt (update_product qty pid
             (update_client (s_selling_price ?row * of_int qty) cid st1)))"
    using ok c p q d r g i by (simp add: add_sale_def Let_def)
  with c p q d r g i that show thesis by blast
qed

lemma insert_sale_Inr:
  assumes "insert_sale row st = Inr st1"
  shows "sales st1 = sales st @ [row\<lparr>sale_id := next_sale_id st\<rparr>]"
    and "clients st1 = clients st" and "products st1 = products st"
    and "invoice_no row \<notin> invoice_no ` set (sales st)"
  using assms by (auto simp: insert_sale_def split: if_splits)

lemma map_of_update_row:
  "map_of (map (\<lambda>(i, c). if i = k then (i, g c) else (i, c)) xs) j
     = (if j = k then map_option g (map_of xs j) else map_of xs j)"
  by (induction xs) auto

lemma add_sale_run:
  assumes c: "client_map st (sale_client f) = Some cid"
    and p: "product_map st (sale_product f) = Some pid"
    and q: "qty_input (sale_qty f) = Some qty"
    and d: "delivery_input L (sale_delivery f) = Some delivery"
    and r: "map_of (products st) pid = Some pr"
    and g: "generate_invoice_no L today (sales st) (Some today) = Inr ino"
    and fresh: "ino \<notin> invoice_no ` set (sales st)"
    and row: "row = sale_values ino cid pid qty pr delivery
        (or_default (sale_payment f) ''Cash'')
        (or_default (sale_status f) ''Pending'') today"
  shows "add_sale L f flt today st =
           (Inr ino,
            snd (refresh_sales L flt (update_product qty pid
              (update_client (s_selling_price row * of_int qty) cid
                 (st\<lparr>sales := sales st @ [row\<lparr>sale_id := next_sale_id st\<rparr>],
                     sales_seq := next_sale_id st\<rparr>)))))"
proof -
  have inv: "invoice_no row = ino" by (simp add: row sale_values_def Let_def)
  have i: "insert_sale row st = Inr (st\<lparr>sales := sales st @ [row\<lparr>sale_id := next_sale_id st\<rparr>],
                     sales_seq := next_sale_id st\<rparr>)"
    using fresh inv by (auto simp: insert_sale_def)
  show ?thesis using c p q d r g i[unfolded row] unfolding row
    by (simp add: add_sale_def Let_def)
qed

subsection \<open>Evaluation on concrete inputs\<close>

lemma digit_char_eval:
  "digit_char 0 = CHR ''0''" "digit_char 1 = CHR ''1''" "digit_char 2 = CHR ''2''"
  "digit_char 3 = CHR ''3''" "digit_char 4 = CHR ''4''" "digit_char 5 = CHR ''5''"
  "digit_char 6 = CHR ''6''" "digit_char 7 = CHR ''7''" "digit_char 8 = CHR ''8''"
  "digit_char 9 = CHR ''9''" "digit_char (Suc 0) = CHR ''1''"
  by code_simp+

lemma str_nat_eval:
  "str_nat 1 = ''1''" "str_nat (Suc 0) = ''1''" "str_nat 2 = ''2''" "str_nat 3 = ''3''"
  "str_nat 999 = ''999''" "str_nat 1000 = ''1000''" "str_nat 2024 = ''2024''"
  "str_nat 2025 = ''2025''"
  by (simp_all add: str_nat.simps digit_char_eval)

lemma fmt03d_eval:
  "fmt03d 1 = ''001''" "fmt03d 2 = ''002''" "fmt03d 3 = ''003''" "fmt03d 1000 = ''1000''"
  by (simp_all add: fmt03d_def str_nat_eval) (simp_all add: numeral_2_eq_2)

lemmas text_eval =
  strip_def is_space_def is_digit_def digit_val_def py_int_def py_digits_def last_segment_def
  lower_ascii_def str_nat_eval fmt03d_eval key_of_def build_map_def

lemmas input_defs = qty_input_def delivery_input_def or_default_def

lemmas date_eval = iso_day_def nat_of_digits_def is_digit_def digit_val_def days_in_month_def

lemma sample_keys:
  "client_map sample_app ''Ali (1)'' = Some 1"
  "product_map sample_app ''Lamp (1)'' = Some 1"
  by (simp_all add: sample_app_def text_eval)

lemma sample_year: "fromisoformat sample_library ''2024-03-05'' = Some 2024"
  by (simp add: sample_library_def date_eval)

lemma sample_invoice:
  "generate_invoice_no sample_library t [] (Some ''2024-03-05'') = Inr ''DZAIR-2024-001''"
  by (simp add: generate_invoice_no_def sample_year order_by_sale_id_desc_def text_eval)

lemma sample_py_int:
  "py_int ''7'' = Some 7" "py_int ''0'' = Some 0" "py_int ''-3'' = Some (- 3)" "py_int ''-5'' = Some (- 5)"
  "py_int ''two'' = None" "py_int ''1'' = Some 1" "py_int ''2'' = Some 2"
  by (simp_all add: text_eval)

lemma sample_strip: "strip [] = []" "strip ''-5'' = ''-5''"
  by (simp_all add: text_eval)

lemma sample_inputs:
  "qty_input [] = Some 1" "qty_input ''1'' = Some 1" "qty_input ''2'' = Some 2"
  "qty_input ''7'' = Some 7" "qty_input ''0'' = Some 0" "qty_input ''-3'' = Some (- 3)"
  "qty_input ''two'' = None"
  "delivery_input L [] = Some None"
  "delivery_input sample_library ''-5'' = Some (Some (- 5))"
  by (simp_all add: input_defs sample_py_int sample_strip sample_library_def)

lemma sale_values_fields:
  "invoice_no (sale_values ino cid pid qty pr delivery payment stat d) = ino"
  "client_id (sale_values ino cid pid qty pr delivery payment stat d) = cid"
  "product_id (sale_values ino cid pid qty pr delivery payment stat d) = pid"
  "quantity (sale_values ino cid pid qty pr delivery payment stat d) = qty"
  "date (sale_values ino cid pid qty pr delivery payment stat d) = d"
  "status (sale_values ino cid pid qty pr delivery payment stat d) = stat"
  "payment_method (sale_values ino cid pid qty pr delivery payment stat d) = payment"
  "paid (sale_values ino cid pid qty pr delivery payment stat d) = (if stat = ''Delivered'' then 1 else 0)"
  "s_purchase_price (sale_values ino cid pid qty pr delivery payment stat d) = purchase_price pr"
  "s_selling_price (sale_values ino cid pid qty pr delivery payment stat d)
     = (case selling_price pr of None \<Rightarrow> 0 | Some v \<Rightarrow> v)"
  "s_weight (sale_values ino cid pid qty pr delivery payment stat d)
     = (case weight pr of None \<Rightarrow> 0 | Some v \<Rightarrow> v)"
  "s_delivery_price (sale_values ino cid pid qty pr delivery payment stat d)
     = (case delivery of None \<Rightarrow> (case default_delivery_price pr of None \<Rightarrow> 0 | Some v \<Rightarrow> v)
        | Some v \<Rightarrow> v)"
  "s_tot_livraison (sale_values ino cid pid qty pr delivery payment stat d)
     = tot_livraison (case weight pr of None \<Rightarrow> 0 | Some v \<Rightarrow> v)
         (case delivery of None \<Rightarrow> (case default_delivery_price pr of None \<Rightarrow> 0 | Some v \<Rightarrow> v)
          | Some v \<Rightarrow> v)"
  "s_p_fayda (sale_values ino cid pid qty pr delivery payment stat d)
     = p_fayda (case selling_price pr of None \<Rightarrow> 0 | Some v \<Rightarrow> v)
         (tot_livraison (case weight pr of None \<Rightarrow> 0 | Some v \<Rightarrow> v)
            (case delivery of None \<Rightarrow> (case default_delivery_price pr of None \<Rightarrow> 0 | Some v \<Rightarrow> v)
             | Some v \<Rightarrow> v))
         (purchase_price pr)"
  "s_fayda_safia (sale_values ino cid pid qty pr delivery payment stat d)
     = fayda_safia (p_fayda (case selling_price pr of None \<Rightarrow> 0 | Some v \<Rightarrow> v)
         (tot_livraison (case weight pr of None \<Rightarrow> 0 | Some v \<Rightarrow> v)
            (case delivery of None \<Rightarrow> (case default_delivery_price pr of None \<Rightarrow> 0 | Some v \<Rightarrow> v)
             | Some v \<Rightarrow> v))
         (purchase_price pr))"
  by (simp_all add: sale_values_def Let_def)

lemma add_sale_run_tables:
  assumes c: "client_map st (sale_client f) = Some cid"
    and p: "product_map st (sale_product f) = Some pid"
    and q: "qty_input (sale_qty f) = Some qty"
    and d: "delivery_input L (sale_delivery f) = Some delivery"
    and r: "map_of (products st) pid = Some pr"
    and g: "generate_invoice_no L today (sales st) (Some today) = Inr ino"
    and fresh: "ino \<notin> invoice_no ` set (sales st)"
    and row: "row = sale_values ino cid pid qty pr delivery
        (or_default (sale_payment f) ''Cash'')
        (or_default (sale_status f) ''Pending'') today"
  shows "fst (add_sale L f flt today st) = Inr ino"
    and "sales (snd (add_sale L f flt today st)) = sales st @ [row\<lparr>sale_id := next_sale_id st\<rparr>]"
    and "clients (snd (add_sale L f flt today st))
           = map (\<lambda>(i, c). if i = cid
                   then (i, c\<lparr>total_spent := total_spent c
                                  + (case selling_price pr of None \<Rightarrow> 0 | Some v \<Rightarrow> v) * of_int qty,
                              total_orders := total_orders c + 1\<rparr>)
                   else (i, c)) (clients st)"
    and "products (snd (add_sale L f flt today st))
           = map (\<lambda>(i, p). if i = pid then (i, p\<lparr>stock_qty := stock_qty p - qty\<rparr>)
                   else (i, p)) (products st)"
  unfolding add_sale_run[OF c p q d r g fresh row]
  by (simp_all add: refresh_sales_tables update_product_def update_client_def row sale_values_fields)

lemma sample_run:
  assumes q: "qty_input (sale_qty f) = Some qty"
    and d: "delivery_input sample_library (sale_delivery f) = Some delivery"
    and c: "sale_client f = ''Ali (1)''" and p: "sale_product f = ''Lamp (1)''"
    and st: "client_map st = client_map sample_app" "product_map st = product_map sample_app"
        "sales st = []" "map_of (products st) 1 = Some pr"
    and row: "row = sale_values ''DZAIR-2024-001'' 1 1 qty pr delivery
        (or_default (sale_payment f) ''Cash'')
        (or_default (sale_status f) ''Pending'') ''2024-03-05''"
  shows "fst (add_sale sample_library f flt ''2024-03-05'' st) = Inr ''DZAIR-2024-001''"
    and "sales (snd (add_sale sample_library f flt ''2024-03-05'' st))
           = [row\<lparr>sale_id := next_sale_id st\<rparr>]"
    and "clients (snd (add_sale sample_library f flt ''2024-03-05'' st))
           = map (\<lambda>(i, c). if i = 1
                   then (i, c\<lparr>total_spent := total_spent c
                                  + (case selling_price pr of None \<Rightarrow> 0 | Some v \<Rightarrow> v) * of_int qty,
                              total_orders := total_orders c + 1\<rparr>)
                   else (i, c)) (clients st)"
    and "products (snd (add_sale sample_library f flt ''2024-03-05'' st))
           = map (\<lambda>(i, p). if i = 1 then (i, p\<lparr>stock_qty := stock_qty p - qty\<rparr>)
                   else (i, p)) (products st)"
proof -
  have h2: "client_map st (sale_client f) = Some 1" by (simp add: c st sample_keys)
  have h3: "product_map st (sale_product f) = Some 1" by (simp add: p st sample_keys)
  have g: "generate_invoice_no sample_library ''2024-03-05'' (sales st) (Some ''2024-03-05'')
             = Inr ''DZAIR-2024-001''"
    by (simp add: st sample_invoice)
  have fresh: "''DZAIR-2024-001'' \<notin> invoice_no ` set (sales st)" by (simp add: st)
  note T = add_sale_run_tables[OF h2 h3 q d st(4) g fresh row]
  show "fst (add_sale sample_library f flt ''2024-03-05'' st) = Inr ''DZAIR-2024-001''"
    by (rule T(1))
  show "sales (snd (add_sale sample_library f flt ''2024-03-05'' st))
           = [row\<lparr>sale_id := next_sale_id st\<rparr>]"
    using T(2) by (simp add: st)
  show "clients (snd (add_sale sample_library f flt ''2024-03-05'' st))
           = map (\<lambda>(i, c). if i = 1
                   then (i, c\<lparr>total_spent := total_spent c
                                  + (case selling_price pr of None \<Rightarrow> 0 | Some v \<Rightarrow> v) * of_int qty,
                              total_orders := total_orders c + 1\<rparr>)
                   else (i, c)) (clients st)"
    by (rule T(3))
  show "products (snd (add_sale sample_library f flt ''2024-03-05'' st))
           = map (\<lambda>(i, p). if i = 1 then (i, p\<lparr>stock_qty := stock_qty p - qty\<rparr>)
                   else (i, p)) (products st)"
    by (rule T(4))
qed

lemma sample_app_facts:
  "client_map sample_app = client_map sample_app" "product_map sample_app = product_map sample_app"
  "sales sample_app = []" "map_of (products sample_app) 1 = Some sample_product"
  by (simp_all add: sample_app_def)

subsection \<open>Decimal numerals\<close>

lemma is_digit_facts:
  assumes "is_digit c"
  shows "c \<noteq> CHR ''-''" "c \<noteq> CHR ''+''" "c \<noteq> CHR ''_''" "c \<noteq> CHR ''%''"
    "\<not> is_space c" "lower_ascii c = c"
  using assms by (auto simp: is_digit_def is_space_def lower_ascii_def Let_def)

lemma lower_ascii_digit:
  assumes "is_digit c" "lower_ascii d = c"
  shows "d = c"
proof (cases "65 \<le> (of_char d :: nat) \<and> (of_char d :: nat) \<le> 90")
  case True
  then have "c = char_of ((of_char d :: nat) + 32)" using assms(2) by (simp add: lower_ascii_def)
  then have "(of_char c :: nat) = (of_char d + 32) mod 256" by simp
  with True assms(1) show ?thesis by (simp add: is_digit_def)
next
  case False
  with assms(2) show ?thesis by (simp add: lower_ascii_def)
qed


lemma digit_char_facts:
  assumes "n < 10"
  shows "is_digit (digit_char n)" "digit_val (digit_char n) = n"
  using assms by (simp_all add: is_digit_def digit_val_def digit_char_def)

lemma str_nat_digits: "c \<in> set (str_nat n) \<Longrightarrow> is_digit c"
proof (induction n arbitrary: c rule: str_nat.induct)
  case (1 n)
  show ?case
  proof (cases "n < 10")
    case True
    with "1.prems" show ?thesis by (simp add: str_nat.simps[of n] digit_char_facts)
  next
    case False
    with "1.prems" "1.IH" show ?thesis
      by (auto simp: str_nat.simps[of n] digit_char_facts)
  qed
qed

lemma str_nat_nonempty: "str_nat n \<noteq> []"
  by (simp add: str_nat.simps[of n])

lemma nat_of_digits_snoc: "nat_of_digits (ds @ [c]) = 10 * nat_of_digits ds + digit_val c"
  by (simp add: nat_of_digits_def)

lemma nat_of_digits_str_nat: "nat_of_digits (str_nat n) = n"
proof (induction n rule: str_nat.induct)
  case (1 n)
  show ?case
  proof (cases "n < 10")
    case True
    then show ?thesis by (simp add: str_nat.simps[of n] nat_of_digits_def digit_char_facts)
  next
    case False
    with "1.IH" show ?thesis
      by (simp add: str_nat.simps[of n] nat_of_digits_snoc digit_char_facts)
  qed
qed


lemma nat_of_digits_zeros: "nat_of_digits (replicate k CHR ''0'' @ ds) = nat_of_digits ds"
proof (induction k)
  case 0
  show ?case by simp
next
  case (Suc k)
  have "nat_of_digits (CHR ''0'' # xs) = nat_of_digits xs" for xs
    by (simp add: nat_of_digits_def digit_val_def)
  with Suc show ?case by simp
qed

lemma digits_acc_digits:
  "\<forall>c\<in>set ds. is_digit c \<Longrightarrow>
     digits_acc a ds = Some (foldl (\<lambda>a c. 10 * a + digit_val c) a ds)"
  by (induction ds arbitrary: a) simp_all

lemma py_digits_digits:
  assumes "ds \<noteq> []" "\<forall>c\<in>set ds. is_digit c"
  shows "py_digits ds = Some (nat_of_digits ds)"
proof (cases ds)
  case Nil
  with assms show ?thesis by simp
next
  case (Cons c r)
  with assms show ?thesis
    by (simp add: py_digits_def digits_acc_digits nat_of_digits_def)
qed

lemma dropWhile_none: "\<forall>x\<in>set xs. \<not> P x \<Longrightarrow> dropWhile P xs = xs"
  by (cases xs) auto

lemma strip_digits: "\<forall>c\<in>set ds. is_digit c \<Longrightarrow> strip ds = ds"
  by (simp add: strip_def dropWhile_none is_digit_facts)

lemma py_int_digits:
  assumes "ds \<noteq> []" "\<forall>c\<in>set ds. is_digit c"
  shows "py_int ds = Some (int (nat_of_digits ds))"
proof (cases ds)
  case Nil
  with assms show ?thesis by simp
next
  case (Cons c r)
  with assms have "is_digit c" by simp
  then have "c \<noteq> CHR ''-''" "c \<noteq> CHR ''+''" by (simp_all add: is_digit_facts)
  with py_digits_digits[OF assms] Cons assms(2) show ?thesis
    by (simp add: py_int_def strip_digits)
qed

lemma zero_is_digit: "is_digit CHR ''0''"
  by (simp add: is_digit_def)

lemma fmt03d_digits:
  assumes "0 \<le> n"
  shows "\<forall>c\<in>set (fmt03d n). is_digit c" "fmt03d n \<noteq> []" "nat_of_digits (fmt03d n) = nat n"
    "3 \<le> length (fmt03d n)" "length (str_nat (nat n)) \<le> length (fmt03d n)"
  using assms
  by (auto simp: fmt03d_def str_nat_digits str_nat_nonempty zero_is_digit nat_of_digits_zeros
        nat_of_digits_str_nat)

lemma py_int_fmt03d: "0 \<le> n \<Longrightarrow> py_int (fmt03d n) = Some n"
  by (simp add: py_int_digits fmt03d_digits)



lemma last_segment_no_hyphen: "CHR ''-'' \<notin> set (last_segment s)"
  by (auto simp: last_segment_def dest: set_takeWhileD)

lemma py_int_nonneg:
  assumes "CHR ''-'' \<notin> set s" "py_int s = Some n"
  shows "0 \<le> n"
proof (cases "strip s")
  case Nil
  with assms(2) show ?thesis by (simp add: py_int_def)
next
  case (Cons c r)
  have "set (strip s) \<subseteq> set s"
    by (auto simp: strip_def dest!: set_dropWhileD)
  with Cons assms(1) have "c \<noteq> CHR ''-''" by auto
  with Cons assms(2) show ?thesis
    by (auto simp: py_int_def split: if_splits)
qed

subsection \<open>The invoice pattern and the sequence number\<close>

lemma generate_invoice_no_eq:
  "generate_invoice_no L today rows date_str =
     (case fromisoformat L (case date_str of None \<Rightarrow> today | Some d \<Rightarrow> d) of
        None \<Rightarrow> Inl ValueError
      | Some year \<Rightarrow> Inr (invoice_text year (next_seq year rows)))"
  by (simp add: generate_invoice_no_def next_seq_def invoice_text_def invoice_pattern_def Let_def
        split: option.split)

lemma next_seq_positive: "1 \<le> next_seq year rows"
proof -
  have "0 \<le> n" if "py_int (last_segment s) = Some n" for s n
    using py_int_nonneg[OF last_segment_no_hyphen that] .
  then show ?thesis
    by (auto simp: next_seq_def split: list.split option.split)
qed





subsection \<open>The newest matching row\<close>









lemma order_by_head_max:
  assumes r: "r \<in> set xs" and mx: "\<forall>r'\<in>set xs. r' \<noteq> r \<longrightarrow> sale_id r' < sale_id r"
  shows "order_by_sale_id_desc xs = r # rev (butlast (sort_key sale_id xs))"
proof -
  let ?s = "sort_key sale_id xs"
  have rs: "r \<in> set ?s" using r by simp
  have "xs \<noteq> []" using r by auto
  then have ne: "?s \<noteq> []" by (metis length_sort length_0_conv)
  have "sorted (map sale_id ?s)" by (rule sorted_sort_key)
  then have "sorted (map sale_id (butlast ?s @ [last ?s]))"
    by (simp only: append_butlast_last_id[OF ne])
  then have le: "\<forall>x\<in>set (butlast ?s). sale_id x \<le> sale_id (last ?s)"
    by (simp add: sorted_append)
  have "set ?s = set (butlast ?s @ [last ?s])"
    by (simp only: append_butlast_last_id[OF ne])
  then have "r \<in> set (butlast ?s) \<or> r = last ?s" using rs by auto
  with le have rl: "sale_id r \<le> sale_id (last ?s)" by auto
  have "last ?s \<in> set xs" using last_in_set[OF ne] by simp
  with mx rl have "last ?s = r" by force
  then have "rev ?s = r # rev (butlast ?s)"
    using append_butlast_last_id[OF ne] by (metis rev.simps(2) rev_swap)
  then show ?thesis by (simp add: order_by_sale_id_desc_def)
qed

lemma str_nat_length:
  "n < 10 \<Longrightarrow> length (str_nat n) = 1"
  "10 \<le> n \<Longrightarrow> length (str_nat n) = Suc (length (str_nat (n div 10)))"
  by (simp_all add: str_nat.simps[of n])

lemma str_nat_four_digits:
  assumes "1000 \<le> year" "year \<le> 9999"
  shows "length (str_nat year) = 4"
proof -
  have a: "10 \<le> year" "10 \<le> year div 10" "10 \<le> year div 10 div 10" "year div 10 div 10 div 10 < 10"
    using assms by simp_all
  show ?thesis
    by (simp add: str_nat_length(2)[OF a(1)] str_nat_length(2)[OF a(2)] str_nat_length(2)[OF a(3)]
          str_nat_length(1)[OF a(4)])
qed

subsection \<open>One call and the sequence numbers\<close>



subsection \<open>The order of the sales view\<close>

lemma order_by_sale_id_desc_sorted:
  "sorted_wrt (\<lambda>a b. sale_id b \<le> sale_id a) (order_by_sale_id_desc xs)"
proof -
  have "sorted (map sale_id (sort_key sale_id xs))" by (rule sorted_sort_key)
  then have "sorted_wrt (\<lambda>a b. sale_id a \<le> sale_id b) (sort_key sale_id xs)"
    by (simp add: sorted_map)
  then show ?thesis by (simp add: order_by_sale_id_desc_def sorted_wrt_rev)
qed

lemma order_by_sale_id_desc_set:
  "set (order_by_sale_id_desc xs) = set xs" "length (order_by_sale_id_desc xs) = length xs"
  by (simp_all add: order_by_sale_id_desc_def)

lemma sales_where_meaning:
  "sales_where L st s df dt r \<longleftrightarrow>
     (s = [] \<or> like_null (client_name st r) (''%'' @ s @ ''%'')
             \<or> like_null (product_name st r) (''%'' @ s @ ''%'')
             \<or> sql_like (''%'' @ s @ ''%'') (invoice_no r)
             \<or> sql_like (''%'' @ s @ ''%'') (status r))
     \<and> (df = [] \<or> (\<exists>a x. sqlite_date L df = Some a \<and> sqlite_date L (date r) = Some x \<and> day_le a x))
     \<and> (dt = [] \<or> (\<exists>b x. sqlite_date L dt = Some b \<and> sqlite_date L (date r) = Some x \<and> day_le x b))"
  by (auto simp: sales_where_def date_ge_null_def split: option.splits)

lemma refresh_sales_view:
  "(strip (date_from flt) \<noteq> [] \<and> fromisoformat L (strip (date_from flt)) = None
      \<longrightarrow> fst (refresh_sales L flt st) = Some (Dialog ''Date Error'' ''From date must be YYYY-MM-DD'')
          \<and> sales_tree (snd (refresh_sales L flt st)) = sales_tree st
          \<and> sales (snd (refresh_sales L flt st)) = sales st)
   \<and> ((strip (date_from flt) = [] \<or> fromisoformat L (strip (date_from flt)) \<noteq> None)
       \<and> strip (date_to flt) \<noteq> [] \<and> fromisoformat L (strip (date_to flt)) = None
      \<longrightarrow> fst (refresh_sales L flt st) = Some (Dialog ''Date Error'' ''To date must be YYYY-MM-DD'')
          \<and> sales_tree (snd (refresh_sales L flt st)) = sales_tree st
          \<and> sales (snd (refresh_sales L flt st)) = sales st)
   \<and> ((strip (date_from flt) = [] \<or> fromisoformat L (strip (date_from flt)) \<noteq> None)
       \<and> (strip (date_to flt) = [] \<or> fromisoformat L (strip (date_to flt)) \<noteq> None)
      \<longrightarrow> fst (refresh_sales L flt st) = None
          \<and> (\<exists>rows. sales_tree (snd (refresh_sales L flt st)) = map (tree_values st) rows
                \<and> rows = order_by_sale_id_desc (filter (\<lambda>r.
                    (strip (search_var flt) = []
                       \<or> like_null (client_name st r) (''%'' @ strip (search_var flt) @ ''%'')
                       \<or> like_null (product_name st r) (''%'' @ strip (search_var flt) @ ''%'')
                       \<or> sql_like (''%'' @ strip (search_var flt) @ ''%'') (invoice_no r)
                       \<or> sql_like (''%'' @ strip (search_var flt) @ ''%'') (status r))
                    \<and> (strip (date_from flt) = []
                       \<or> (\<exists>a x. sqlite_date L (strip (date_from flt)) = Some a
                                \<and> sqlite_date L (date r) = Some x \<and> day_le a x))
                    \<and> (strip (date_to flt) = []
                       \<or> (\<exists>b x. sqlite_date L (strip (date_to flt)) = Some b
                                \<and> sqlite_date L (date r) = Some x \<and> day_le x b))) (sales st))
                \<and> sorted_wrt (\<lambda>a b. sale_id b \<le> sale_id a) rows
                \<and> set rows \<subseteq> set (sales st) \<and> length rows \<le> length (sales st)))
   \<and> day_le d d"
proof -
  let ?df = "strip (date_from flt)" and ?dt = "strip (date_to flt)" and ?s = "strip (search_var flt)"
  have 1: "?df \<noteq> [] \<and> fromisoformat L ?df = None
      \<longrightarrow> fst (refresh_sales L flt st) = Some (Dialog ''Date Error'' ''From date must be YYYY-MM-DD'')
          \<and> sales_tree (snd (refresh_sales L flt st)) = sales_tree st
          \<and> sales (snd (refresh_sales L flt st)) = sales st"
    by (simp add: refresh_sales_def Let_def)
  have 2: "(?df = [] \<or> fromisoformat L ?df \<noteq> None) \<and> ?dt \<noteq> [] \<and> fromisoformat L ?dt = None
      \<longrightarrow> fst (refresh_sales L flt st) = Some (Dialog ''Date Error'' ''To date must be YYYY-MM-DD'')
          \<and> sales_tree (snd (refresh_sales L flt st)) = sales_tree st
          \<and> sales (snd (refresh_sales L flt st)) = sales st"
    by (auto simp: refresh_sales_def Let_def)
  let ?P = "\<lambda>r. (?s = []
                       \<or> like_null (client_name st r) (''%'' @ ?s @ ''%'')
                       \<or> like_null (product_name st r) (''%'' @ ?s @ ''%'')
                       \<or> sql_like (''%'' @ ?s @ ''%'') (invoice_no r)
                       \<or> sql_like (''%'' @ ?s @ ''%'') (status r))
                    \<and> (?df = []
                       \<or> (\<exists>a x. sqlite_date L ?df = Some a
                                \<and> sqlite_date L (date r) = Some x \<and> day_le a x))
                    \<and> (?dt = []
                       \<or> (\<exists>b x. sqlite_date L ?dt = Some b
                                \<and> sqlite_date L (date r) = Some x \<and> day_le x b))"
  have w: "sales_where L st ?s ?df ?dt = ?P"
    by (rule ext) (rule sales_where_meaning)
  let ?rows = "order_by_sale_id_desc (filter ?P (sales st))"
  have 3: "(?df = [] \<or> fromisoformat L ?df \<noteq> None) \<and> (?dt = [] \<or> fromisoformat L ?dt \<noteq> None)
      \<longrightarrow> fst (refresh_sales L flt st) = None
          \<and> sales_tree (snd (refresh_sales L flt st)) = map (tree_values st) ?rows"
    unfolding w[symmetric] by (auto simp: refresh_sales_def Let_def)
  have 4: "sorted_wrt (\<lambda>a b. sale_id b \<le> sale_id a) ?rows"
    by (rule order_by_sale_id_desc_sorted)
  have 5: "set ?rows \<subseteq> set (sales st)" "length ?rows \<le> length (sales st)"
    by (auto simp: order_by_sale_id_desc_set)
  have 6: "day_le d d" by (cases d) auto
  from 1 2 3 4 5 6 show ?thesis by blast
qed

section \<open>Properties of the formula engine\<close>

text \<open>
  Claim C2. For all numeric inputs \<open>tot_livraison weight delivery_price\<close> is
  \<open>weight * 50 + delivery_price\<close>, \<open>p_fayda\<close> is selling price minus delivery cost minus
  purchase price, and \<open>fayda_safia pf\<close> is \<open>pf - 500\<close>. Nothing is clamped or rounded: a
  loss stays negative. For purchase price 1000, weight 2, delivery price 200 and selling
  price 3000 the three functions give 300, 1700 and 1200.
\<close>

theorem formulas_exact:
  "tot_livraison w d = w * 50 + d
   \<and> p_fayda s l p = (s - l) - p
   \<and> fayda_safia pf = pf - 500
   \<and> tot_livraison 2 200 = 300
   \<and> p_fayda 3000 (tot_livraison 2 200) 1000 = 1700
   \<and> fayda_safia (p_fayda 3000 (tot_livraison 2 200) 1000) = 1200
   \<and> p_fayda 100 300 1000 = - 1200
   \<and> fayda_safia (- 1200) = - 1700
   \<and> tot_livraison (1 / 3) (1 / 7) = 353 / 21"
  by (simp add: tot_livraison_def p_fayda_def fayda_safia_def)

section \<open>Properties of recording a sale\<close>

text \<open>
  Claim C1. Every successful \<open>add_sale\<close> call with quantity \<open>q\<close> for the client \<open>cid\<close> and
  the product \<open>pid\<close>, whose row \<open>pr\<close> has the selling price \<open>S\<close> (NULL read as 0), appends
  exactly one row to the sales: it carries the invoice number, the two keys, the quantity,
  the date, the snapshot of the prices, weight and delivery price, the three derived
  fields computed from the snapshot, and \<open>paid = 1\<close> if the status is the literal
  \<open>Delivered\<close>, else 0. The client's \<open>total_spent\<close> grows by \<open>S * q\<close> and its
  \<open>total_orders\<close> by 1, the product's \<open>stock_qty\<close> drops by \<open>q\<close> whatever its value (the
  stock is an integer and may go below zero), and every other client and product row and
  every earlier sale is as before.
\<close>

theorem add_sale_effect:
  assumes ok: "add_sale L f flt today st = (Inr ino, st')"
    and c: "client_map st (sale_client f) = Some cid"
    and p: "product_map st (sale_product f) = Some pid"
    and r: "map_of (products st) pid = Some pr"
    and q: "qty_input (sale_qty f) = Some q"
    and S: "S = (case selling_price pr of None \<Rightarrow> 0 | Some v \<Rightarrow> v)"
  shows "(\<exists>row. sales st' = sales st @ [row]
            \<and> invoice_no row = ino \<and> client_id row = cid \<and> product_id row = pid
            \<and> quantity row = q \<and> date row = today
            \<and> s_purchase_price row = purchase_price pr \<and> s_selling_price row = S
            \<and> s_weight row = (case weight pr of None \<Rightarrow> 0 | Some v \<Rightarrow> v)
            \<and> (strip (sale_delivery f) = [] \<longrightarrow>
                 s_delivery_price row = (case default_delivery_price pr of None \<Rightarrow> 0 | Some v \<Rightarrow> v))
            \<and> (strip (sale_delivery f) \<noteq> [] \<longrightarrow>
                 py_float L (sale_delivery f) = Some (s_delivery_price row))
            \<and> s_tot_livraison row = tot_livraison (s_weight row) (s_delivery_price row)
            \<and> s_p_fayda row = p_fayda (s_selling_price row) (s_tot_livraison row) (s_purchase_price row)
            \<and> s_fayda_safia row = fayda_safia (s_p_fayda row)
            \<and> payment_method row = (or_default (sale_payment f) ''Cash'')
            \<and> status row = (or_default (sale_status f) ''Pending'')
            \<and> paid row = (if status row = ''Delivered'' then 1 else 0))
       \<and> clients st' = map (\<lambda>(i, c). if i = cid
                 then (i, c\<lparr>total_spent := total_spent c + S * of_int q,
                            total_orders := total_orders c + 1\<rparr>)
                 else (i, c)) (clients st)
       \<and> products st' = map (\<lambda>(i, p). if i = pid then (i, p\<lparr>stock_qty := stock_qty p - q\<rparr>)
                 else (i, p)) (products st)
       \<and> (\<forall>c. map_of (clients st) cid = Some c \<longrightarrow>
             map_of (clients st') cid = Some (c\<lparr>total_spent := total_spent c + S * of_int q,
                                                total_orders := total_orders c + 1\<rparr>))
       \<and> map_of (products st') pid = Some (pr\<lparr>stock_qty := stock_qty pr - q\<rparr>)
       \<and> (\<forall>i. i \<noteq> cid \<longrightarrow> map_of (clients st') i = map_of (clients st) i)
       \<and> (\<forall>i. i \<noteq> pid \<longrightarrow> map_of (products st') i = map_of (products st) i)"
proof -
  from ok obtain cid' pid' qty delivery pr' st1 where
    c': "client_map st (sale_client f) = Some cid'" and
    p': "product_map st (sale_product f) = Some pid'" and
    q': "qty_input (sale_qty f) = Some qty" and
    d: "delivery_input L (sale_delivery f) = Some delivery" and
    r': "map_of (products st) pid' = Some pr'" and
    i: "insert_sale (sale_values ino cid' pid' qty pr' delivery
        (or_default (sale_payment f) ''Cash'')
        (or_default (sale_status f) ''Pending'') today) st = Inr st1" and
    st': "st' = snd (refresh_sales L flt (update_product qty pid'
             (update_client (s_selling_price (sale_values ino cid' pid' qty pr' delivery
        (or_default (sale_payment f) ''Cash'')
        (or_default (sale_status f) ''Pending'') today) * of_int qty) cid' st1)))"
    by (rule add_sale_success)
  have eqs: "cid' = cid" "pid' = pid" "qty = q" "pr' = pr"
    using c c' p p' q q' r r' by simp_all
  let ?row = "sale_values ino cid pid q pr delivery
        (or_default (sale_payment f) ''Cash'')
        (or_default (sale_status f) ''Pending'') today"
  have sp: "s_selling_price ?row = S"
    by (simp add: sale_values_def Let_def S)
  have sales': "sales st' = sales st @ [?row\<lparr>sale_id := next_sale_id st\<rparr>]"
    using insert_sale_Inr(1)[OF i] st' eqs
    by (simp add: refresh_sales_tables update_product_def update_client_def)
  have cl: "clients st' = map (\<lambda>(i, c). if i = cid
                 then (i, c\<lparr>total_spent := total_spent c + S * of_int q,
                            total_orders := total_orders c + 1\<rparr>)
                 else (i, c)) (clients st)"
    using insert_sale_Inr(2)[OF i] st' eqs sp
    by (simp add: refresh_sales_tables update_product_def update_client_def)
  have prd: "products st' = map (\<lambda>(i, p). if i = pid then (i, p\<lparr>stock_qty := stock_qty p - q\<rparr>)
                 else (i, p)) (products st)"
    using insert_sale_Inr(3)[OF i] st' eqs
    by (simp add: refresh_sales_tables update_product_def update_client_def)
  have del: "(strip (sale_delivery f) = [] \<longrightarrow> delivery = None)
           \<and> (strip (sale_delivery f) \<noteq> [] \<longrightarrow> (\<exists>v. delivery = Some v \<and> py_float L (sale_delivery f) = Some v))"
    using d by (auto simp: delivery_input_def split: if_splits)
  have row: "\<exists>row. sales st' = sales st @ [row]
            \<and> invoice_no row = ino \<and> client_id row = cid \<and> product_id row = pid
            \<and> quantity row = q \<and> date row = today
            \<and> s_purchase_price row = purchase_price pr \<and> s_selling_price row = S
            \<and> s_weight row = (case weight pr of None \<Rightarrow> 0 | Some v \<Rightarrow> v)
            \<and> (strip (sale_delivery f) = [] \<longrightarrow>
                 s_delivery_price row = (case default_delivery_price pr of None \<Rightarrow> 0 | Some v \<Rightarrow> v))
            \<and> (strip (sale_delivery f) \<noteq> [] \<longrightarrow>
                 py_float L (sale_delivery f) = Some (s_delivery_price row))
            \<and> s_tot_livraison row = tot_livraison (s_weight row) (s_delivery_price row)
            \<and> s_p_fayda row = p_fayda (s_selling_price row) (s_tot_livraison row) (s_purchase_price row)
            \<and> s_fayda_safia row = fayda_safia (s_p_fayda row)
            \<and> payment_method row = (or_default (sale_payment f) ''Cash'')
            \<and> status row = (or_default (sale_status f) ''Pending'')
            \<and> paid row = (if status row = ''Delivered'' then 1 else 0)"
    apply (rule exI[where x = "?row\<lparr>sale_id := next_sale_id st\<rparr>"])
    using sales' del by (auto simp: sale_values_def Let_def S)
  have m1: "\<forall>c. map_of (clients st) cid = Some c \<longrightarrow>
             map_of (clients st') cid = Some (c\<lparr>total_spent := total_spent c + S * of_int q,
                                                total_orders := total_orders c + 1\<rparr>)"
    unfolding cl by (simp add: map_of_update_row)
  have m2: "map_of (products st') pid = Some (pr\<lparr>stock_qty := stock_qty pr - q\<rparr>)"
    unfolding prd using r by (simp add: map_of_update_row)
  have m3: "\<forall>i. i \<noteq> cid \<longrightarrow> map_of (clients st') i = map_of (clients st) i"
    unfolding cl by (simp add: map_of_update_row)
  have m4: "\<forall>i. i \<noteq> pid \<longrightarrow> map_of (products st') i = map_of (products st) i"
    unfolding prd by (simp add: map_of_update_row)
  from row cl prd m1 m2 m3 m4 show ?thesis by blast
qed

text \<open>
  The theorem at a concrete call: seven pieces sold from a stock of five leave a stock of
  \<open>-2\<close>.
\<close>

theorem add_sale_effect_witness:
  "fst (add_sale sample_library (sample_form\<lparr>sale_qty := ''7''\<rparr>) no_filters ''2024-03-05'' sample_app)
     = Inr ''DZAIR-2024-001''
   \<and> map_of (products (snd (add_sale sample_library (sample_form\<lparr>sale_qty := ''7''\<rparr>) no_filters
                                 ''2024-03-05'' sample_app))) 1
     = Some (sample_product\<lparr>stock_qty := - 2\<rparr>)
   \<and> map_of (clients (snd (add_sale sample_library (sample_form\<lparr>sale_qty := ''7''\<rparr>) no_filters
                                 ''2024-03-05'' sample_app))) 1
     = Some (sample_client\<lparr>total_spent := 21000, total_orders := 1\<rparr>)"
proof -
  let ?F = "sample_form\<lparr>sale_qty := ''7''\<rparr>"
  let ?A = "add_sale sample_library ?F no_filters ''2024-03-05'' sample_app"
  have h2: "client_map sample_app (sale_client ?F) = Some 1"
    by (simp add: sample_form_def sample_keys)
  have h3: "product_map sample_app (sale_product ?F) = Some 1"
    by (simp add: sample_form_def sample_keys)
  have h4: "map_of (products sample_app) 1 = Some sample_product"
    by (simp add: sample_app_def)
  have h5: "qty_input (sale_qty ?F) = Some 7"
    by (simp add: sample_inputs)
  have h6: "map_of (clients sample_app) 1 = Some sample_client"
    by (simp add: sample_app_def)
  have d: "delivery_input sample_library (sale_delivery ?F) = Some None"
    by (simp add: sample_form_def sample_inputs)
  have g: "generate_invoice_no sample_library ''2024-03-05'' (sales sample_app) (Some ''2024-03-05'')
             = Inr ''DZAIR-2024-001''"
    by (simp add: sample_app_def sample_invoice)
  have fresh: "''DZAIR-2024-001'' \<notin> invoice_no ` set (sales sample_app)"
    by (simp add: sample_app_def)
  have f: "fst ?A = Inr ''DZAIR-2024-001''"
    by (simp add: add_sale_run[OF h2 h3 h5 d h4 g fresh refl])
  then have h1: "?A = (Inr ''DZAIR-2024-001'', snd ?A)" by (simp add: prod_eq_iff)
  note E = add_sale_effect[OF h1 h2 h3 h4 h5 refl]
  from E have p: "map_of (products (snd ?A)) 1
      = Some (sample_product\<lparr>stock_qty := stock_qty sample_product - 7\<rparr>)"
    by blast
  from E h6 have c: "map_of (clients (snd ?A)) 1
      = Some (sample_client\<lparr>total_spent := total_spent sample_client
                 + (case selling_price sample_product of None \<Rightarrow> 0 | Some v \<Rightarrow> v) * of_int 7,
               total_orders := total_orders sample_client + 1\<rparr>)"
    by blast
  have p': "sample_product\<lparr>stock_qty := stock_qty sample_product - 7\<rparr>
              = sample_product\<lparr>stock_qty := - 2\<rparr>"
    by (simp add: sample_product_def)
  have c': "sample_client\<lparr>total_spent := total_spent sample_client
                 + (case selling_price sample_product of None \<Rightarrow> 0 | Some v \<Rightarrow> v) * of_int 7,
               total_orders := total_orders sample_client + 1\<rparr>
              = sample_client\<lparr>total_spent := 21000, total_orders := 1\<rparr>"
    by (simp add: sample_product_def sample_client_def)
  from f p c show ?thesis unfolding p' c' by blast
qed

text \<open>
  Claim C5, as the code has it. \<open>add_sale\<close> checks its inputs before any write: a
  quantity text that is not empty and that \<^verbatim>\<open>int\<close> rejects, or a delivery text that is
  not blank and that \<^verbatim>\<open>float\<close> rejects, ends the call with a \<open>Validation\<close> dialog and
  the state is the one before the call, so no row is inserted or updated. With a listed
  client and product the message is \<open>Quantity must be integer\<close> for the quantity, else
  \<open>Delivery must be numeric\<close>. The sign of the numbers is not checked.
\<close>

theorem add_sale_validation:
  assumes bad: "(sale_qty f \<noteq> [] \<and> py_int (sale_qty f) = None)
              \<or> (strip (sale_delivery f) \<noteq> [] \<and> py_float L (sale_delivery f) = None)"
  shows "\<exists>msg. add_sale L f flt today st = (Inl (Dialog ''Validation'' msg), st)
           \<and> (client_map st (sale_client f) \<noteq> None \<and> product_map st (sale_product f) \<noteq> None
                \<longrightarrow> msg = (if sale_qty f \<noteq> [] \<and> py_int (sale_qty f) = None
                            then ''Quantity must be integer'' else ''Delivery must be numeric''))"
proof (cases "client_map st (sale_client f)")
  case c: None
  show ?thesis by (simp add: add_sale_def c)
next
  case c: (Some cid)
  show ?thesis
  proof (cases "product_map st (sale_product f)")
    case p: None
    show ?thesis by (simp add: add_sale_def c p)
  next
    case p: (Some pid)
    show ?thesis
    proof (cases "sale_qty f \<noteq> [] \<and> py_int (sale_qty f) = None")
      case True
      then have q: "qty_input (sale_qty f) = None" by (simp add: qty_input_def)
      have "add_sale L f flt today st = (Inl (Dialog ''Validation'' ''Quantity must be integer''), st)"
        by (simp add: add_sale_def c p q)
      with True show ?thesis by simp
    next
      case False
      then obtain qty where q: "qty_input (sale_qty f) = Some qty"
        by (cases "sale_qty f = []") (auto simp: qty_input_def)
      from False bad have d: "delivery_input L (sale_delivery f) = None"
        by (auto simp: delivery_input_def)
      have "add_sale L f flt today st = (Inl (Dialog ''Validation'' ''Delivery must be numeric''), st)"
        by (simp add: add_sale_def c p q d)
      with False show ?thesis by auto
    qed
  qed
qed

text \<open>The theorem at a concrete call: the quantity \<open>two\<close> is rejected and nothing changes.\<close>

theorem add_sale_validation_witness:
  "add_sale sample_library (sample_form\<lparr>sale_qty := ''two''\<rparr>) no_filters ''2024-03-05'' sample_app
     = (Inl (Dialog ''Validation'' ''Quantity must be integer''), sample_app)"
proof -
  let ?F = "sample_form\<lparr>sale_qty := ''two''\<rparr>"
  have h: "(sale_qty ?F \<noteq> [] \<and> py_int (sale_qty ?F) = None)
         \<or> (strip (sale_delivery ?F) \<noteq> [] \<and> py_float sample_library (sale_delivery ?F) = None)"
    by (simp add: sample_py_int)
  have s: "client_map sample_app (sale_client ?F) \<noteq> None \<and> product_map sample_app (sale_product ?F) \<noteq> None"
    by (simp add: sample_form_def sample_keys)
  have m: "(if sale_qty ?F \<noteq> [] \<and> py_int (sale_qty ?F) = None
                            then ''Quantity must be integer'' else ''Delivery must be numeric'') = ''Quantity must be integer''"
    by (simp add: sample_py_int)
  from add_sale_validation[OF h, of no_filters "''2024-03-05''" sample_app] s m
  show ?thesis by metis
qed

text \<open>
  Claim C5 as stated asks for a positive quantity and a delivery price of at least 0. The
  quantities \<open>0\<close> and \<open>-3\<close> and the delivery price \<open>-5\<close> are accepted: the sale is
  recorded, and a negative quantity raises the stock.
\<close>

theorem add_sale_accepts_zero_quantity:
  "fst (add_sale sample_library (sample_form\<lparr>sale_qty := ''0''\<rparr>) no_filters ''2024-03-05'' sample_app)
     = Inr ''DZAIR-2024-001''
   \<and> map quantity (sales (snd (add_sale sample_library (sample_form\<lparr>sale_qty := ''0''\<rparr>) no_filters
                                   ''2024-03-05'' sample_app))) = [0]
   \<and> fst (add_sale sample_library (sample_form\<lparr>sale_qty := ''-3''\<rparr>) no_filters ''2024-03-05'' sample_app)
     = Inr ''DZAIR-2024-001''
   \<and> map_of (products (snd (add_sale sample_library (sample_form\<lparr>sale_qty := ''-3''\<rparr>) no_filters
                                   ''2024-03-05'' sample_app))) 1 = Some (sample_product\<lparr>stock_qty := 8\<rparr>)
   \<and> fst (add_sale sample_library (sample_form\<lparr>sale_delivery := ''-5''\<rparr>) no_filters ''2024-03-05'' sample_app)
     = Inr ''DZAIR-2024-001''
   \<and> map s_delivery_price (sales (snd (add_sale sample_library (sample_form\<lparr>sale_delivery := ''-5''\<rparr>)
                                   no_filters ''2024-03-05'' sample_app))) = [- 5]"
proof -
  note a = sample_run[where f = "sample_form\<lparr>sale_qty := ''0''\<rparr>" and qty = 0 and delivery = None
         and flt = no_filters, OF _ _ _ _ sample_app_facts refl]
  note b = sample_run[where f = "sample_form\<lparr>sale_qty := ''-3''\<rparr>" and qty = "- 3" and delivery = None
         and flt = no_filters, OF _ _ _ _ sample_app_facts refl]
  note c = sample_run[where f = "sample_form\<lparr>sale_delivery := ''-5''\<rparr>" and qty = 2
         and delivery = "Some (- 5)" and flt = no_filters, OF _ _ _ _ sample_app_facts refl]
  have pre: "sale_client sample_form = ''Ali (1)''" "sale_product sample_form = ''Lamp (1)''"
    "sale_delivery sample_form = []" "sale_qty sample_form = ''2''"
    by (simp_all add: sample_form_def)
  show ?thesis
    by (simp add: a b c pre sample_inputs or_default_def sale_values_fields)
       (simp add: sample_app_def sample_product_def)
qed

text \<open>
  Claim C6, as the code has it. A call whose client or product selection is not a key of
  the dictionaries ends with the dialog \<open>Validation\<close>, \<open>Select valid client and product\<close>;
  a call whose selected product has no row in \<open>Products\<close> ends with a dialog, which is
  \<open>Error\<close>, \<open>Product not found\<close> when the quantity and the delivery price pass their
  checks. In each case the state is the one before the call: no sale is inserted and no
  client or product row is changed.
\<close>

theorem add_sale_unknown_selection:
  "(client_map st (sale_client f) = None \<or> product_map st (sale_product f) = None
      \<longrightarrow> add_sale L f flt today st
            = (Inl (Dialog ''Validation'' ''Select valid client and product''), st))
   \<and> (\<forall>pid. product_map st (sale_product f) = Some pid \<and> map_of (products st) pid = None
      \<longrightarrow> (\<exists>title msg. add_sale L f flt today st = (Inl (Dialog title msg), st)))
   \<and> (\<forall>cid pid qty delivery.
        client_map st (sale_client f) = Some cid \<and> product_map st (sale_product f) = Some pid
        \<and> map_of (products st) pid = None
        \<and> qty_input (sale_qty f) = Some qty
        \<and> delivery_input L (sale_delivery f) = Some delivery
      \<longrightarrow> add_sale L f flt today st = (Inl (Dialog ''Error'' ''Product not found''), st))"
proof (intro conjI allI impI)
  assume "client_map st (sale_client f) = None \<or> product_map st (sale_product f) = None"
  then show "add_sale L f flt today st
            = (Inl (Dialog ''Validation'' ''Select valid client and product''), st)"
    by (cases "client_map st (sale_client f)") (auto simp: add_sale_def)
next
  fix cid pid qty delivery
  assume "client_map st (sale_client f) = Some cid \<and> product_map st (sale_product f) = Some pid
        \<and> map_of (products st) pid = None
        \<and> qty_input (sale_qty f) = Some qty
        \<and> delivery_input L (sale_delivery f) = Some delivery"
  then show "add_sale L f flt today st = (Inl (Dialog ''Error'' ''Product not found''), st)"
    by (simp add: add_sale_def)
next
  fix pid
  assume a: "product_map st (sale_product f) = Some pid \<and> map_of (products st) pid = None"
  show "\<exists>title msg. add_sale L f flt today st = (Inl (Dialog title msg), st)"
  proof (cases "client_map st (sale_client f)")
    case None
    then show ?thesis by (simp add: add_sale_def)
  next
    case c: (Some cid)
    show ?thesis
    proof (cases "qty_input (sale_qty f)")
      case None
      with a c show ?thesis by (simp add: add_sale_def)
    next
      case q: (Some qty)
      show ?thesis
      proof (cases "delivery_input L (sale_delivery f)")
        case None
        with a c q show ?thesis by (simp add: add_sale_def)
      next
        case (Some delivery)
        with a c q show ?thesis by (simp add: add_sale_def)
      qed
    qed
  qed
qed

text \<open>
  The theorem at two concrete calls: a client that is not listed, and a listed product
  whose row is gone.
\<close>

theorem add_sale_unknown_selection_witness:
  "add_sale sample_library (sample_form\<lparr>sale_client := ''Nobody (9)''\<rparr>) no_filters ''2024-03-05''
      sample_app
     = (Inl (Dialog ''Validation'' ''Select valid client and product''), sample_app)
   \<and> add_sale sample_library sample_form no_filters ''2024-03-05'' (sample_app\<lparr>products := []\<rparr>)
     = (Inl (Dialog ''Error'' ''Product not found''), sample_app\<lparr>products := []\<rparr>)"
proof -
  let ?F = "sample_form\<lparr>sale_client := ''Nobody (9)''\<rparr>"
  let ?S = "sample_app\<lparr>products := []\<rparr>"
  have n: "client_map sample_app (sale_client ?F) = None
           \<or> product_map sample_app (sale_product ?F) = None"
    by (simp add: sample_app_def text_eval)
  have m: "client_map ?S (sale_client sample_form) = Some 1
        \<and> product_map ?S (sale_product sample_form) = Some 1
        \<and> map_of (products ?S) 1 = None
        \<and> qty_input (sale_qty sample_form) = Some 2
        \<and> delivery_input sample_library (sale_delivery sample_form) = Some None"
    using sample_keys by (simp add: sample_form_def sample_inputs)
  from add_sale_unknown_selection[of sample_app ?F sample_library no_filters "''2024-03-05''"] n
  have 1: "add_sale sample_library ?F no_filters ''2024-03-05'' sample_app
     = (Inl (Dialog ''Validation'' ''Select valid client and product''), sample_app)"
    by blast
  from add_sale_unknown_selection[of ?S sample_form sample_library no_filters "''2024-03-05''"] m
  have 2: "add_sale sample_library sample_form no_filters ''2024-03-05'' ?S
     = (Inl (Dialog ''Error'' ''Product not found''), ?S)"
    by blast
  from 1 2 show ?thesis by blast
qed

text \<open>
  Claim C6 as stated fails on two counts. A selection that is not listed is reported in
  the \<open>Validation\<close> dialog, as an invalid input and not as a missing entity. And only the
  product row is looked up: when the listed client has no row in \<open>Clients\<close> any more, the
  call succeeds, the sale is inserted and the stock is lowered.
\<close>

theorem add_sale_missing_client_row:
  "add_sale sample_library (sample_form\<lparr>sale_client := ''Nobody (9)''\<rparr>) no_filters ''2024-03-05''
      sample_app
     = (Inl (Dialog ''Validation'' ''Select valid client and product''), sample_app)
   \<and> map_of (clients stale_app) 1 = None
   \<and> client_map stale_app (sale_client sample_form) = Some 1
   \<and> fst (add_sale sample_library sample_form no_filters ''2024-03-05'' stale_app)
       = Inr ''DZAIR-2024-001''
   \<and> map client_id (sales (snd (add_sale sample_library sample_form no_filters ''2024-03-05''
                                     stale_app))) = [1]
   \<and> map_of (products (snd (add_sale sample_library sample_form no_filters ''2024-03-05''
                                     stale_app))) 1 = Some (sample_product\<lparr>stock_qty := 3\<rparr>)"
proof -
  have 1: "add_sale sample_library (sample_form\<lparr>sale_client := ''Nobody (9)''\<rparr>) no_filters
             ''2024-03-05'' sample_app
     = (Inl (Dialog ''Validation'' ''Select valid client and product''), sample_app)"
    by (simp add: add_sale_def sample_app_def text_eval)
  have st: "client_map stale_app = client_map sample_app"
    "product_map stale_app = product_map sample_app"
    "sales stale_app = []" "map_of (products stale_app) 1 = Some sample_product"
    by (simp_all add: stale_app_def sample_app_def)
  have pre: "sale_client sample_form = ''Ali (1)''" "sale_product sample_form = ''Lamp (1)''"
    "sale_delivery sample_form = []" "sale_qty sample_form = ''2''"
    by (simp_all add: sample_form_def)
  note a = sample_run[where f = sample_form and qty = 2 and delivery = None
         and flt = no_filters, OF _ _ _ _ st refl]
  have 2: "map_of (clients stale_app) 1 = None" by (simp add: stale_app_def)
  have 3: "client_map stale_app (sale_client sample_form) = Some 1"
    by (simp add: st pre sample_keys)
  have q: "qty_input (sale_qty sample_form) = Some 2"
    by (simp add: pre sample_inputs)
  have d: "delivery_input sample_library (sale_delivery sample_form) = Some None"
    by (simp add: pre sample_inputs)
  have 4: "fst (add_sale sample_library sample_form no_filters ''2024-03-05'' stale_app)
       = Inr ''DZAIR-2024-001''"
    by (rule a(1)[OF q d pre(1) pre(2)])
  have 5: "map client_id (sales (snd (add_sale sample_library sample_form no_filters ''2024-03-05''
                                     stale_app))) = [1]"
    unfolding a(2)[OF q d pre(1) pre(2)] by (simp add: sale_values_fields)
  have 6: "map_of (products (snd (add_sale sample_library sample_form no_filters ''2024-03-05''
                                     stale_app))) 1 = Some (sample_product\<lparr>stock_qty := 3\<rparr>)"
    unfolding a(4)[OF q d pre(1) pre(2)]
    by (simp add: stale_app_def sample_app_def sample_product_def)
  from 1 2 3 4 5 6 show ?thesis by blast
qed

section \<open>Properties of the dashboard totals\<close>

text \<open>
  Claim C7, as the code has it. \<open>refresh_dashboard\<close> yields the number of sales, the sum
  of \<open>p_fayda\<close> (the profit before the fixed deduction of 500) over all sales and the sum
  of \<open>tot_livraison\<close> over all sales; with no sales it yields 0, 0 and 0.
\<close>

theorem refresh_dashboard_totals:
  "refresh_dashboard st
     = (int (length (sales st)), sum_list (map s_p_fayda (sales st)),
        sum_list (map s_tot_livraison (sales st)))
   \<and> refresh_dashboard (st\<lparr>sales := []\<rparr>) = (0, 0, 0)"
  by (cases "sales st") (simp_all add: refresh_dashboard_def sql_sum_def)

text \<open>
  Claim C7 as stated has the profit total as the sum of \<open>fayda_safia\<close>. After the one sale
  of the sample (\<open>p_fayda\<close> 1700, \<open>fayda_safia\<close> 1200) the dashboard shows 1700.
\<close>

theorem refresh_dashboard_sums_p_fayda:
  "refresh_dashboard (snd (add_sale sample_library sample_form no_filters ''2024-03-05'' sample_app))
     = (1, 1700, 300)
   \<and> sum_list (map s_fayda_safia
        (sales (snd (add_sale sample_library sample_form no_filters ''2024-03-05'' sample_app))))
     = 1200"
proof -
  have pre: "sale_client sample_form = ''Ali (1)''" "sale_product sample_form = ''Lamp (1)''"
    "sale_delivery sample_form = []" "sale_qty sample_form = ''2''"
    by (simp_all add: sample_form_def)
  have q: "qty_input (sale_qty sample_form) = Some 2"
    by (simp add: pre sample_inputs)
  have d: "delivery_input sample_library (sale_delivery sample_form) = Some None"
    by (simp add: pre sample_inputs)
  note a = sample_run(2)[where flt = no_filters, OF q d pre(1) pre(2) sample_app_facts refl]
  have 1: "refresh_dashboard (snd (add_sale sample_library sample_form no_filters ''2024-03-05''
             sample_app)) = (1, 1700, 300)"
    unfolding refresh_dashboard_def a
    by (simp add: sql_sum_def sale_values_fields sample_product_def tot_livraison_def
          p_fayda_def)
  have 2: "sum_list (map s_fayda_safia
        (sales (snd (add_sale sample_library sample_form no_filters ''2024-03-05'' sample_app))))
     = 1200"
    unfolding a
    by (simp add: sale_values_fields sample_product_def tot_livraison_def p_fayda_def
          fayda_safia_def)
  from 1 2 show ?thesis by blast
qed

section \<open>Defaults of recording a sale\<close>

text \<open>
  Claim C9. A call with an empty quantity field does not fail the quantity check: it
  behaves in every respect as the same call with the quantity \<open>1\<close>, and when it succeeds
  the recorded sale has quantity 1.
\<close>

theorem add_sale_empty_quantity:
  assumes e: "sale_qty f = []"
  shows "add_sale L f flt today st = add_sale L (f\<lparr>sale_qty := ''1''\<rparr>) flt today st
       \<and> fst (add_sale L f flt today st) \<noteq> Inl (Dialog ''Validation'' ''Quantity must be integer'')
       \<and> (\<forall>ino st'. add_sale L f flt today st = (Inr ino, st')
             \<longrightarrow> (\<exists>row. sales st' = sales st @ [row] \<and> quantity row = 1 \<and> invoice_no row = ino))"
proof (intro conjI allI impI)
  let ?g = "f\<lparr>sale_qty := ''1''\<rparr>"
  have q: "qty_input (sale_qty f) = Some 1" by (simp add: e sample_inputs)
  have q': "qty_input ''1'' = Some 1" by (rule sample_inputs)
  have "add_sale L f flt today st = add_sale L ?g flt today st
      \<and> fst (add_sale L f flt today st) \<noteq> Inl (Dialog ''Validation'' ''Quantity must be integer'')"
  proof (cases "client_map st (sale_client f)")
    case c: None
    show ?thesis by (simp add: add_sale_def c)
  next
    case c: (Some cid)
    show ?thesis
    proof (cases "product_map st (sale_product f)")
      case p: None
      show ?thesis by (simp add: add_sale_def c p)
    next
      case p: (Some pid)
      show ?thesis
      proof (cases "delivery_input L (sale_delivery f)")
        case d: None
        show ?thesis by (simp add: add_sale_def c p q q' d)
      next
        case d: (Some delivery)
        show ?thesis
        proof (cases "map_of (products st) pid")
          case r: None
          show ?thesis by (simp add: add_sale_def c p q q' d r)
        next
          case r: (Some pr)
          show ?thesis
          proof (cases "generate_invoice_no L today (sales st) (Some today)")
            case g: (Inl e')
            have "e' \<noteq> Dialog ''Validation'' ''Quantity must be integer''"
              using g by (auto simp: generate_invoice_no_def Let_def split: option.splits)
            then show ?thesis by (simp add: add_sale_def c p q q' d r g)
          next
            case g: (Inr invoice)
            show ?thesis
            proof (cases "insert_sale (sale_values invoice cid pid 1 pr delivery
                     (or_default (sale_payment f) ''Cash'')
                     (or_default (sale_status f) ''Pending'') today) st")
              case i: (Inl e')
              then have "e' \<noteq> Dialog ''Validation'' ''Quantity must be integer''"
                by (auto simp: insert_sale_def split: if_splits)
              then show ?thesis
                by (simp add: add_sale_def Let_def c p q q' d r g i)
            next
              case i: (Inr st1)
              show ?thesis
                by (simp add: add_sale_def Let_def c p q q' d r g i)
            qed
          qed
        qed
      qed
    qed
  qed
  then show "add_sale L f flt today st = add_sale L ?g flt today st"
    and "fst (add_sale L f flt today st) \<noteq> Inl (Dialog ''Validation'' ''Quantity must be integer'')"
    by blast+
next
  fix ino st'
  assume ok: "add_sale L f flt today st = (Inr ino, st')"
  from ok obtain cid pid qty delivery pr st1 where
    q: "qty_input (sale_qty f) = Some qty" and
    i: "insert_sale (sale_values ino cid pid qty pr delivery
        (or_default (sale_payment f) ''Cash'')
        (or_default (sale_status f) ''Pending'') today) st = Inr st1" and
    st': "st' = snd (refresh_sales L flt (update_product qty pid
             (update_client (s_selling_price (sale_values ino cid pid qty pr delivery
        (or_default (sale_payment f) ''Cash'')
        (or_default (sale_status f) ''Pending'') today) * of_int qty) cid st1)))"
    by (rule add_sale_success)
  from q e have q1: "qty = 1" by (simp add: sample_inputs)
  have "sales st' = sales st @ [(sale_values ino cid pid qty pr delivery
        (or_default (sale_payment f) ''Cash'')
        (or_default (sale_status f) ''Pending'') today)\<lparr>sale_id := next_sale_id st\<rparr>]"
    using insert_sale_Inr(1)[OF i] st'
    by (simp add: refresh_sales_tables update_product_def update_client_def)
  then show "\<exists>row. sales st' = sales st @ [row] \<and> quantity row = 1 \<and> invoice_no row = ino"
    using q1 by (simp add: sale_values_fields)
qed

text \<open>The theorem at a concrete call: the sample form with the quantity left empty.\<close>

theorem add_sale_empty_quantity_witness:
  "fst (add_sale sample_library (sample_form\<lparr>sale_qty := []\<rparr>) no_filters ''2024-03-05'' sample_app)
     = Inr ''DZAIR-2024-001''
   \<and> map quantity (sales (snd (add_sale sample_library (sample_form\<lparr>sale_qty := []\<rparr>) no_filters
                                   ''2024-03-05'' sample_app))) = [1]"
proof -
  let ?F = "sample_form\<lparr>sale_qty := []\<rparr>"
  let ?A = "add_sale sample_library ?F no_filters ''2024-03-05'' sample_app"
  have e: "sale_qty ?F = []" by simp
  have pre: "sale_client ?F = ''Ali (1)''" "sale_product ?F = ''Lamp (1)''"
    by (simp_all add: sample_form_def)
  have q: "qty_input (sale_qty ?F) = Some 1" by (simp add: sample_inputs)
  have d: "delivery_input sample_library (sale_delivery ?F) = Some None"
    by (simp add: sample_form_def sample_inputs)
  have f: "fst ?A = Inr ''DZAIR-2024-001''"
    by (rule sample_run(1)[OF q d pre sample_app_facts refl])
  then have ok: "?A = (Inr ''DZAIR-2024-001'', snd ?A)" by (simp add: prod_eq_iff)
  from add_sale_empty_quantity[OF e, of sample_library no_filters "''2024-03-05''" sample_app] ok
  obtain row where "sales (snd ?A) = sales sample_app @ [row]" "quantity row = 1"
    by blast
  then have "map quantity (sales (snd ?A)) = [1]" by (simp add: sample_app_def)
  with f show ?thesis by blast
qed

text \<open>
  Claim C10. A product row with NULL in \<open>weight\<close>, \<open>default_delivery_price\<close> or
  \<open>selling_price\<close> does not make the call fail: whenever the selections are listed, the
  quantity and the delivery price are read, the product row exists and the invoice number
  is new, the call succeeds whatever these three columns hold. Each NULL is read as 0 in
  the snapshot and in the derived fields; with no selling price the sale has selling price
  0 and the client's \<open>total_spent\<close> stays as it is.
\<close>

theorem add_sale_null_columns:
  assumes c: "client_map st (sale_client f) = Some cid"
    and p: "product_map st (sale_product f) = Some pid"
    and q: "qty_input (sale_qty f) = Some qty"
    and d: "delivery_input L (sale_delivery f) = Some delivery"
    and r: "map_of (products st) pid = Some pr"
    and g: "generate_invoice_no L today (sales st) (Some today) = Inr ino"
    and fresh: "ino \<notin> invoice_no ` set (sales st)"
  shows "fst (add_sale L f flt today st) = Inr ino
       \<and> (\<exists>row. sales (snd (add_sale L f flt today st)) = sales st @ [row]
            \<and> s_weight row = (case weight pr of None \<Rightarrow> 0 | Some v \<Rightarrow> v)
            \<and> s_selling_price row = (case selling_price pr of None \<Rightarrow> 0 | Some v \<Rightarrow> v)
            \<and> s_delivery_price row
                = (case delivery of
                     None \<Rightarrow> (case default_delivery_price pr of None \<Rightarrow> 0 | Some v \<Rightarrow> v)
                   | Some v \<Rightarrow> v)
            \<and> s_tot_livraison row = tot_livraison (s_weight row) (s_delivery_price row)
            \<and> s_p_fayda row = p_fayda (s_selling_price row) (s_tot_livraison row) (purchase_price pr)
            \<and> s_fayda_safia row = fayda_safia (s_p_fayda row)
            \<and> (weight pr = None \<longrightarrow> s_weight row = 0)
            \<and> (default_delivery_price pr = None \<and> delivery = None \<longrightarrow> s_delivery_price row = 0)
            \<and> (selling_price pr = None \<longrightarrow> s_selling_price row = 0))
       \<and> (\<forall>cl. map_of (clients st) cid = Some cl \<longrightarrow>
             map_option total_spent (map_of (clients (snd (add_sale L f flt today st))) cid)
               = Some (total_spent cl
                       + (case selling_price pr of None \<Rightarrow> 0 | Some v \<Rightarrow> v) * of_int qty))
       \<and> (\<forall>cl. map_of (clients st) cid = Some cl \<and> selling_price pr = None \<longrightarrow>
             map_option total_spent (map_of (clients (snd (add_sale L f flt today st))) cid)
               = Some (total_spent cl))"
proof -
  note T = add_sale_run_tables[OF c p q d r g fresh refl, of flt]
  let ?row = "(sale_values ino cid pid qty pr delivery
        (or_default (sale_payment f) ''Cash'')
        (or_default (sale_status f) ''Pending'') today)\<lparr>sale_id := next_sale_id st\<rparr>"
  have 1: "fst (add_sale L f flt today st) = Inr ino" by (rule T(1))
  have 2: "\<exists>row. sales (snd (add_sale L f flt today st)) = sales st @ [row]
            \<and> s_weight row = (case weight pr of None \<Rightarrow> 0 | Some v \<Rightarrow> v)
            \<and> s_selling_price row = (case selling_price pr of None \<Rightarrow> 0 | Some v \<Rightarrow> v)
            \<and> s_delivery_price row
                = (case delivery of
                     None \<Rightarrow> (case default_delivery_price pr of None \<Rightarrow> 0 | Some v \<Rightarrow> v)
                   | Some v \<Rightarrow> v)
            \<and> s_tot_livraison row = tot_livraison (s_weight row) (s_delivery_price row)
            \<and> s_p_fayda row = p_fayda (s_selling_price row) (s_tot_livraison row) (purchase_price pr)
            \<and> s_fayda_safia row = fayda_safia (s_p_fayda row)
            \<and> (weight pr = None \<longrightarrow> s_weight row = 0)
            \<and> (default_delivery_price pr = None \<and> delivery = None \<longrightarrow> s_delivery_price row = 0)
            \<and> (selling_price pr = None \<longrightarrow> s_selling_price row = 0)"
    by (rule exI[where x = ?row]) (simp add: T(2) sale_values_fields)
  have 3: "\<forall>cl. map_of (clients st) cid = Some cl \<longrightarrow>
             map_option total_spent (map_of (clients (snd (add_sale L f flt today st))) cid)
               = Some (total_spent cl
                       + (case selling_price pr of None \<Rightarrow> 0 | Some v \<Rightarrow> v) * of_int qty)"
    unfolding T(3) by (simp add: map_of_update_row)
  then have 4: "\<forall>cl. map_of (clients st) cid = Some cl \<and> selling_price pr = None \<longrightarrow>
             map_option total_spent (map_of (clients (snd (add_sale L f flt today st))) cid)
               = Some (total_spent cl)"
    by auto
  from 1 2 3 4 show ?thesis by blast
qed

text \<open>
  The theorem at a concrete call: the product of the sample with NULL in all three
  columns. The sale has weight, delivery price and selling price 0, so
  \<open>tot_livraison = 0\<close>, \<open>p_fayda = - 1000\<close> and \<open>fayda_safia = - 1500\<close>, and the client has
  spent nothing.
\<close>

theorem add_sale_null_columns_witness:
  "fst (add_sale sample_library sample_form no_filters ''2024-03-05'' null_app)
     = Inr ''DZAIR-2024-001''
   \<and> map (\<lambda>r. (s_weight r, s_delivery_price r, s_selling_price r, s_tot_livraison r, s_p_fayda r,
                s_fayda_safia r))
        (sales (snd (add_sale sample_library sample_form no_filters ''2024-03-05'' null_app)))
     = [(0, 0, 0, 0, - 1000, - 1500)]
   \<and> map_option total_spent
        (map_of (clients (snd (add_sale sample_library sample_form no_filters ''2024-03-05''
                                 null_app))) 1)
     = Some 0"
proof -
  let ?A = "add_sale sample_library sample_form no_filters ''2024-03-05'' null_app"
  have c: "client_map null_app (sale_client sample_form) = Some 1"
    and p: "product_map null_app (sale_product sample_form) = Some 1"
    using sample_keys by (simp_all add: null_app_def sample_form_def)
  have q: "qty_input (sale_qty sample_form) = Some 2"
    and d: "delivery_input sample_library (sale_delivery sample_form) = Some None"
    by (simp_all add: sample_form_def sample_inputs)
  have r: "map_of (products null_app) 1 = Some null_product"
    by (simp add: null_app_def)
  have s: "sales null_app = []" by (simp add: null_app_def sample_app_def)
  have g: "generate_invoice_no sample_library ''2024-03-05'' (sales null_app) (Some ''2024-03-05'')
             = Inr ''DZAIR-2024-001''"
    by (simp add: s sample_invoice)
  have fresh: "''DZAIR-2024-001'' \<notin> invoice_no ` set (sales null_app)" by (simp add: s)
  have cl: "map_of (clients null_app) 1 = Some sample_client"
    by (simp add: null_app_def sample_app_def)
  note N = add_sale_null_columns[OF c p q d r g fresh, of no_filters]
  from N have 1: "fst ?A = Inr ''DZAIR-2024-001''" by blast
  from N obtain row where row: "sales (snd ?A) = sales null_app @ [row]"
    "s_weight row = (case weight null_product of None \<Rightarrow> 0 | Some v \<Rightarrow> v)"
    "s_selling_price row = (case selling_price null_product of None \<Rightarrow> 0 | Some v \<Rightarrow> v)"
    "s_delivery_price row
                = (case None of
                     None \<Rightarrow> (case default_delivery_price null_product of None \<Rightarrow> 0 | Some v \<Rightarrow> v)
                   | Some v \<Rightarrow> v)"
    "s_tot_livraison row = tot_livraison (s_weight row) (s_delivery_price row)"
    "s_p_fayda row = p_fayda (s_selling_price row) (s_tot_livraison row) (purchase_price null_product)"
    "s_fayda_safia row = fayda_safia (s_p_fayda row)"
    by blast
  have 2: "map (\<lambda>r. (s_weight r, s_delivery_price r, s_selling_price r, s_tot_livraison r, s_p_fayda r,
                s_fayda_safia r)) (sales (snd ?A)) = [(0, 0, 0, 0, - 1000, - 1500)]"
    by (simp add: row s null_product_def tot_livraison_def p_fayda_def fayda_safia_def)
  from N cl have "map_option total_spent (map_of (clients (snd ?A)) 1)
               = Some (total_spent sample_client)"
    by (simp add: null_product_def)
  then have 3: "map_option total_spent (map_of (clients (snd ?A)) 1) = Some 0"
    by (simp add: sample_client_def)
  from 1 2 3 show ?thesis by blast
qed

section \<open>Properties of the invoice sequencer\<close>

text \<open>
  Claim C4, as the code has it. For a reference date that \<^verbatim>\<open>datetime.fromisoformat\<close>
  accepts (the date given, else today's), \<open>generate_invoice_no\<close> never fails and returns
  \<open>DZAIR-\<close>, the year, a hyphen and the sequence number. The year is written in decimal
  without padding, which is four digits for the years 1000 to 9999. The sequence number
  is at least 1 and is written in decimal, padded with zeros to three digits and never
  cut: reading the digits back gives the number. It is 1 when no invoice number of the
  table matches the pattern of the year; when the matching row with the greatest
  \<open>sale_id\<close> (the one inserted last) is \<open>r\<close>, it is 1 plus the number read from what
  follows the last hyphen of \<open>r\<close>'s invoice number, and 1 when that text is not a number.
\<close>

theorem generate_invoice_no_result:
  assumes y: "fromisoformat L (case date_str of None \<Rightarrow> today | Some d \<Rightarrow> d) = Some year"
  shows "\<exists>seq. generate_invoice_no L today rows date_str
                 = Inr (''DZAIR-'' @ str_nat year @ ''-'' @ fmt03d seq)
           \<and> seq = next_seq year rows \<and> 1 \<le> seq
           \<and> (\<forall>c\<in>set (str_nat year). is_digit c) \<and> nat_of_digits (str_nat year) = year
           \<and> (1000 \<le> year \<and> year \<le> 9999 \<longrightarrow> length (str_nat year) = 4)
           \<and> (\<forall>c\<in>set (fmt03d seq). is_digit c) \<and> 3 \<le> length (fmt03d seq)
           \<and> length (str_nat (nat seq)) \<le> length (fmt03d seq)
           \<and> py_int (fmt03d seq) = Some seq
           \<and> (filter (\<lambda>r. sql_like (''DZAIR-'' @ str_nat year @ ''-%'') (invoice_no r)) rows = []
                \<longrightarrow> seq = 1)
           \<and> (\<forall>r. r \<in> set rows \<and> sql_like (''DZAIR-'' @ str_nat year @ ''-%'') (invoice_no r)
                    \<and> (\<forall>r'\<in>set rows. sql_like (''DZAIR-'' @ str_nat year @ ''-%'') (invoice_no r')
                          \<and> r' \<noteq> r \<longrightarrow> sale_id r' < sale_id r)
                \<longrightarrow> seq = (case py_int (last_segment (invoice_no r)) of
                             Some n \<Rightarrow> n + 1 | None \<Rightarrow> 1))"
proof -
  let ?P = "\<lambda>r. sql_like (''DZAIR-'' @ str_nat year @ ''-%'') (invoice_no r)"
  let ?seq = "next_seq year rows"
  have 1: "generate_invoice_no L today rows date_str
             = Inr (''DZAIR-'' @ str_nat year @ ''-'' @ fmt03d ?seq)"
    by (simp add: generate_invoice_no_eq y invoice_text_def)
  have pos: "1 \<le> ?seq" by (rule next_seq_positive)
  then have nn: "0 \<le> ?seq" by simp
  have 2: "filter ?P rows = [] \<longrightarrow> ?seq = 1"
    by (simp add: next_seq_def invoice_pattern_def order_by_sale_id_desc_def)
  have 3: "\<forall>r. r \<in> set rows \<and> ?P r \<and> (\<forall>r'\<in>set rows. ?P r' \<and> r' \<noteq> r \<longrightarrow> sale_id r' < sale_id r)
                \<longrightarrow> ?seq = (case py_int (last_segment (invoice_no r)) of
                             Some n \<Rightarrow> n + 1 | None \<Rightarrow> 1)"
  proof (intro allI impI)
    fix r
    assume a: "r \<in> set rows \<and> ?P r \<and> (\<forall>r'\<in>set rows. ?P r' \<and> r' \<noteq> r \<longrightarrow> sale_id r' < sale_id r)"
    then have "r \<in> set (filter ?P rows)"
      and "\<forall>r'\<in>set (filter ?P rows). r' \<noteq> r \<longrightarrow> sale_id r' < sale_id r"
      by auto
    then have "order_by_sale_id_desc (filter ?P rows)
                 = r # rev (butlast (sort_key sale_id (filter ?P rows)))"
      by (rule order_by_head_max)
    then show "?seq = (case py_int (last_segment (invoice_no r)) of Some n \<Rightarrow> n + 1 | None \<Rightarrow> 1)"
      by (simp add: next_seq_def invoice_pattern_def)
  qed
  have 4: "1000 \<le> year \<and> year \<le> 9999 \<longrightarrow> length (str_nat year) = 4"
    by (simp add: str_nat_four_digits)
  have 5: "\<forall>c\<in>set (str_nat year). is_digit c" "nat_of_digits (str_nat year) = year"
    by (simp_all add: str_nat_digits nat_of_digits_str_nat)
  note 6 = fmt03d_digits(1,4,5)[OF nn] py_int_fmt03d[OF nn]
  from 1 pos 2 3 4 5 6 show ?thesis by blast
qed
text \<open>
  The theorem at a concrete table: of the two invoices of 2024 the one inserted last is
  number 3, so the next one is number 4, whatever the older number 7 and the invoice of
  2023 are.
\<close>

theorem generate_invoice_no_result_witness:
  "generate_invoice_no sample_library ''2024-03-05''
     [sample_sale 1 ''DZAIR-2024-007'' ''2024-01-02'', sample_sale 2 ''DZAIR-2024-003'' ''2024-01-03'',
      sample_sale 3 ''DZAIR-2023-050'' ''2023-12-31''] None
     = Inr ''DZAIR-2024-004''"
proof -
  let ?rows = "[sample_sale 1 ''DZAIR-2024-007'' ''2024-01-02'',
                sample_sale 2 ''DZAIR-2024-003'' ''2024-01-03'',
                sample_sale 3 ''DZAIR-2023-050'' ''2023-12-31'']"
  have y: "fromisoformat sample_library (case None of None \<Rightarrow> ''2024-03-05'' | Some d \<Rightarrow> d)
             = Some 2024"
    by (simp add: sample_year)
  from generate_invoice_no_result[OF y, where rows = ?rows]
  have g: "generate_invoice_no sample_library ''2024-03-05'' ?rows None
             = Inr (''DZAIR-'' @ str_nat 2024 @ ''-'' @ fmt03d (next_seq 2024 ?rows))"
    by blast
  have n: "next_seq 2024 ?rows = 3 + 1"
    by (simp add: next_seq_def invoice_pattern_def order_by_sale_id_desc_def sample_sale_def
          sale_values_fields text_eval)
  have f: "fmt03d (3 + 1) = ''004''"
    by (simp add: fmt03d_def str_nat.simps[of 4] digit_char_eval) (simp add: numeral_2_eq_2)
  show ?thesis unfolding g n f by (simp add: str_nat_eval)
qed

text \<open>
  Claim C4 as stated has the year always as four digits. The year is formatted without
  padding: for the valid reference date \<open>0999-05-05\<close> the identifier is \<open>DZAIR-999-001\<close>.
\<close>

theorem generate_invoice_no_short_year:
  "fromisoformat sample_library ''0999-05-05'' = Some 999
   \<and> generate_invoice_no sample_library ''2024-03-05'' [] (Some ''0999-05-05'') = Inr ''DZAIR-999-001''"
proof -
  have y: "fromisoformat sample_library ''0999-05-05'' = Some 999"
    by (simp add: sample_library_def date_eval)
  then have "generate_invoice_no sample_library ''2024-03-05'' [] (Some ''0999-05-05'')
               = Inr ''DZAIR-999-001''"
    by (simp add: generate_invoice_no_def order_by_sale_id_desc_def text_eval)
  with y show ?thesis by blast
qed



section \<open>Properties of the sales view\<close>

text \<open>
  Claim C8 says that \<open>refresh_sales\<close> shows exactly the sales dated within the two bounds,
  both included, or fails on a bound that is not a valid calendar date. The code means the
  same: its comment reads \<^verbatim>\<open>date range filters in YYYY-MM-DD\<close> and its dialogs say that a
  bound must be \<^verbatim>\<open>YYYY-MM-DD\<close>. But it checks a bound with \<^verbatim>\<open>datetime.fromisoformat\<close>, which
  accepts more than that, and selects the rows with SQLite's \<^verbatim>\<open>date()\<close>, which does not
  read all that the check accepts. At the \<open>From\<close> bound \<^verbatim>\<open>2024-01-01T10\<close> the check passes
  and \<^verbatim>\<open>date()\<close> gives NULL; the \<open>To\<close> bound is the 31st of January 2024 and the sales 2
  and 3 are dated on the first and the last day of that month. \<open>refresh_sales\<close> shows no
  dialog and an empty view: neither the sales in the range nor a validation error.
\<close>

theorem refresh_sales_unreadable_bound:
  "fromisoformat hour_library (strip (date_from from_hour)) = Some 2024
   \<and> sqlite_date hour_library (strip (date_from from_hour)) = None
   \<and> map (\<lambda>r. (sale_id r, sqlite_date hour_library (date r))) (sales dated_app)
       = [(1, Some (2023, 12, 31)), (2, Some (2024, 1, 1)),
          (3, Some (2024, 1, 31)), (4, Some (2024, 2, 1))]
   \<and> sqlite_date hour_library (strip (date_to from_hour)) = Some (2024, 1, 31)
   \<and> fst (refresh_sales hour_library from_hour dated_app) = None
   \<and> sales_tree (snd (refresh_sales hour_library from_hour dated_app)) = []"
proof -
  have st: "strip ''2024-01-01T10'' = ''2024-01-01T10''" "strip ''2024-01-31'' = ''2024-01-31''"
    by (simp_all add: strip_def is_space_def)
  have iso: "iso_day ''2024-01-01T10'' = None" "iso_day ''2024-01-01'' = Some (2024, 1, 1)"
    "iso_day ''2024-01-31'' = Some (2024, 1, 31)"
    "iso_day ''2023-12-31'' = Some (2023, 12, 31)" "iso_day ''2024-02-01'' = Some (2024, 2, 1)"
    by (simp_all add: date_eval)
  have hour: "iso_hour ''2024-01-01T10'' = Some 2024" "iso_hour ''2024-01-31'' = Some 2024"
    by (simp_all add: iso_hour_def iso) (simp_all add: nat_of_digits_def is_digit_def digit_val_def)
  have lib: "fromisoformat hour_library = iso_hour" "sqlite_date hour_library = iso_day"
    by (simp_all add: hour_library_def sample_library_def)
  have flt: "strip (search_var from_hour) = []" "strip (date_from from_hour) = ''2024-01-01T10''"
    "strip (date_to from_hour) = ''2024-01-31''"
    by (simp_all add: from_hour_def january_def st sample_strip)
  have rows: "map (\<lambda>r. (sale_id r, sqlite_date hour_library (date r))) (sales dated_app)
       = [(1, Some (2023, 12, 31)), (2, Some (2024, 1, 1)),
          (3, Some (2024, 1, 31)), (4, Some (2024, 2, 1))]"
    unfolding lib by (simp add: dated_app_def sample_sale_def sale_values_fields iso)
  have w: "filter (sales_where hour_library dated_app [] ''2024-01-01T10'' ''2024-01-31'')
             (sales dated_app) = []"
    unfolding filter_empty_conv by (simp add: sales_where_meaning lib iso)
  have run: "refresh_sales hour_library from_hour dated_app
       = (None, dated_app\<lparr>client_map := build_map (map (\<lambda>(i, c). (i, c_name c)) (clients dated_app)),
                          product_map := build_map (map (\<lambda>(i, p). (i, p_name p)) (products dated_app)),
                          sales_tree := []\<rparr>)"
    unfolding refresh_sales_def Let_def flt lib
    by (simp add: hour w order_by_sale_id_desc_def)
  have 1: "fromisoformat hour_library (strip (date_from from_hour)) = Some 2024"
    "sqlite_date hour_library (strip (date_from from_hour)) = None"
    "sqlite_date hour_library (strip (date_to from_hour)) = Some (2024, 1, 31)"
    unfolding flt lib by (simp_all add: hour iso)
  have 2: "fst (refresh_sales hour_library from_hour dated_app) = None"
    "sales_tree (snd (refresh_sales hour_library from_hour dated_app)) = []"
    unfolding run by simp_all
  from 1 2 rows show ?thesis by blast
qed

text \<open>
  Away from such a bound the sales view is as the claim describes it. A date bound is
  provided when its entry is not blank. \<open>refresh_sales\<close> with a provided \<open>From\<close> bound that
  \<^verbatim>\<open>datetime.fromisoformat\<close> rejects ends with the dialog \<open>Date Error\<close>,
  \<open>From date must be YYYY-MM-DD\<close>; with a \<open>From\<close> bound that is omitted or accepted and a
  provided \<open>To\<close> bound that \<^verbatim>\<open>datetime.fromisoformat\<close> rejects it ends with
  \<open>To date must be YYYY-MM-DD\<close>; in both cases the lines of the view and the table are left
  as they were. When every provided bound is accepted by \<^verbatim>\<open>datetime.fromisoformat\<close> and
  read by SQLite's \<^verbatim>\<open>date()\<close>, it succeeds and the view holds, once each and with the
  greatest \<open>sale_id\<close> first, exactly the sales that pass every filter that is provided:
  the search text, if any, found in the client name, the product name, the invoice number
  or the status; the day of the sale on or after the day of the \<open>From\<close> bound; and the day
  of the sale on or before the day of the \<open>To\<close> bound. An omitted filter excludes nothing.
  In particular, with no search text and both bounds provided, accepted and read as the
  days \<open>a\<close> and \<open>b\<close>, the view is exactly the sales whose day lies between \<open>a\<close> and \<open>b\<close>,
  both included.
\<close>

theorem refresh_sales_date_range:
  "(strip (date_from flt) \<noteq> [] \<and> fromisoformat L (strip (date_from flt)) = None
      \<longrightarrow> fst (refresh_sales L flt st) = Some (Dialog ''Date Error'' ''From date must be YYYY-MM-DD'')
          \<and> sales_tree (snd (refresh_sales L flt st)) = sales_tree st
          \<and> sales (snd (refresh_sales L flt st)) = sales st)
   \<and> ((strip (date_from flt) = [] \<or> fromisoformat L (strip (date_from flt)) \<noteq> None)
       \<and> strip (date_to flt) \<noteq> [] \<and> fromisoformat L (strip (date_to flt)) = None
      \<longrightarrow> fst (refresh_sales L flt st) = Some (Dialog ''Date Error'' ''To date must be YYYY-MM-DD'')
          \<and> sales_tree (snd (refresh_sales L flt st)) = sales_tree st
          \<and> sales (snd (refresh_sales L flt st)) = sales st)
   \<and> ((strip (date_from flt) = []
          \<or> (fromisoformat L (strip (date_from flt)) \<noteq> None
              \<and> sqlite_date L (strip (date_from flt)) \<noteq> None))
       \<and> (strip (date_to flt) = []
          \<or> (fromisoformat L (strip (date_to flt)) \<noteq> None
              \<and> sqlite_date L (strip (date_to flt)) \<noteq> None))
      \<longrightarrow> fst (refresh_sales L flt st) = None
          \<and> sales (snd (refresh_sales L flt st)) = sales st
          \<and> (\<exists>rows. sales_tree (snd (refresh_sales L flt st)) = map (tree_values st) rows
                \<and> rows = order_by_sale_id_desc (filter (\<lambda>r.
                    (strip (search_var flt) = []
                       \<or> like_null (client_name st r) (''%'' @ strip (search_var flt) @ ''%'')
                       \<or> like_null (product_name st r) (''%'' @ strip (search_var flt) @ ''%'')
                       \<or> sql_like (''%'' @ strip (search_var flt) @ ''%'') (invoice_no r)
                       \<or> sql_like (''%'' @ strip (search_var flt) @ ''%'') (status r))
                    \<and> (strip (date_from flt) = []
                       \<or> (\<exists>a x. sqlite_date L (strip (date_from flt)) = Some a
                                \<and> sqlite_date L (date r) = Some x \<and> day_le a x))
                    \<and> (strip (date_to flt) = []
                       \<or> (\<exists>b x. sqlite_date L (strip (date_to flt)) = Some b
                                \<and> sqlite_date L (date r) = Some x \<and> day_le x b))) (sales st))
                \<and> sorted_wrt (\<lambda>a b. sale_id b \<le> sale_id a) rows
                \<and> set rows \<subseteq> set (sales st) \<and> length rows \<le> length (sales st)))
   \<and> (strip (search_var flt) = []
       \<and> strip (date_from flt) \<noteq> [] \<and> fromisoformat L (strip (date_from flt)) \<noteq> None
       \<and> sqlite_date L (strip (date_from flt)) = Some a
       \<and> strip (date_to flt) \<noteq> [] \<and> fromisoformat L (strip (date_to flt)) \<noteq> None
       \<and> sqlite_date L (strip (date_to flt)) = Some b
      \<longrightarrow> fst (refresh_sales L flt st) = None
          \<and> sales_tree (snd (refresh_sales L flt st))
              = map (tree_values st) (order_by_sale_id_desc (filter (\<lambda>r.
                    \<exists>x. sqlite_date L (date r) = Some x \<and> day_le a x \<and> day_le x b) (sales st))))
   \<and> day_le d d"
proof -
  let ?df = "strip (date_from flt)" and ?dt = "strip (date_to flt)" and ?s = "strip (search_var flt)"
  note view = refresh_sales_view[of flt L st d]
  have 1: "?df \<noteq> [] \<and> fromisoformat L ?df = None
      \<longrightarrow> fst (refresh_sales L flt st) = Some (Dialog ''Date Error'' ''From date must be YYYY-MM-DD'')
          \<and> sales_tree (snd (refresh_sales L flt st)) = sales_tree st
          \<and> sales (snd (refresh_sales L flt st)) = sales st"
    using view by blast
  have 2: "(?df = [] \<or> fromisoformat L ?df \<noteq> None) \<and> ?dt \<noteq> [] \<and> fromisoformat L ?dt = None
      \<longrightarrow> fst (refresh_sales L flt st) = Some (Dialog ''Date Error'' ''To date must be YYYY-MM-DD'')
          \<and> sales_tree (snd (refresh_sales L flt st)) = sales_tree st
          \<and> sales (snd (refresh_sales L flt st)) = sales st"
    using view by blast
  have keep: "(?df = [] \<or> fromisoformat L ?df \<noteq> None) \<and> (?dt = [] \<or> fromisoformat L ?dt \<noteq> None)
      \<longrightarrow> sales (snd (refresh_sales L flt st)) = sales st"
    by (auto simp: refresh_sales_def Let_def)
  have 3: "(?df = [] \<or> (fromisoformat L ?df \<noteq> None \<and> sqlite_date L ?df \<noteq> None))
       \<and> (?dt = [] \<or> (fromisoformat L ?dt \<noteq> None \<and> sqlite_date L ?dt \<noteq> None))
      \<longrightarrow> fst (refresh_sales L flt st) = None
          \<and> sales (snd (refresh_sales L flt st)) = sales st
          \<and> (\<exists>rows. sales_tree (snd (refresh_sales L flt st)) = map (tree_values st) rows
                \<and> rows = order_by_sale_id_desc (filter (\<lambda>r.
                    (?s = []
                       \<or> like_null (client_name st r) (''%'' @ ?s @ ''%'')
                       \<or> like_null (product_name st r) (''%'' @ ?s @ ''%'')
                       \<or> sql_like (''%'' @ ?s @ ''%'') (invoice_no r)
                       \<or> sql_like (''%'' @ ?s @ ''%'') (status r))
                    \<and> (?df = []
                       \<or> (\<exists>a x. sqlite_date L ?df = Some a
                                \<and> sqlite_date L (date r) = Some x \<and> day_le a x))
                    \<and> (?dt = []
                       \<or> (\<exists>b x. sqlite_date L ?dt = Some b
                                \<and> sqlite_date L (date r) = Some x \<and> day_le x b))) (sales st))
                \<and> sorted_wrt (\<lambda>a b. sale_id b \<le> sale_id a) rows
                \<and> set rows \<subseteq> set (sales st) \<and> length rows \<le> length (sales st))"
  proof (intro impI)
    assume h: "(?df = [] \<or> (fromisoformat L ?df \<noteq> None \<and> sqlite_date L ?df \<noteq> None))
       \<and> (?dt = [] \<or> (fromisoformat L ?dt \<noteq> None \<and> sqlite_date L ?dt \<noteq> None))"
    then have h': "(?df = [] \<or> fromisoformat L ?df \<noteq> None) \<and> (?dt = [] \<or> fromisoformat L ?dt \<noteq> None)"
      by blast
    from view h' keep show "fst (refresh_sales L flt st) = None
          \<and> sales (snd (refresh_sales L flt st)) = sales st
          \<and> (\<exists>rows. sales_tree (snd (refresh_sales L flt st)) = map (tree_values st) rows
                \<and> rows = order_by_sale_id_desc (filter (\<lambda>r.
                    (?s = []
                       \<or> like_null (client_name st r) (''%'' @ ?s @ ''%'')
                       \<or> like_null (product_name st r) (''%'' @ ?s @ ''%'')
                       \<or> sql_like (''%'' @ ?s @ ''%'') (invoice_no r)
                       \<or> sql_like (''%'' @ ?s @ ''%'') (status r))
                    \<and> (?df = []
                       \<or> (\<exists>a x. sqlite_date L ?df = Some a
                                \<and> sqlite_date L (date r) = Some x \<and> day_le a x))
                    \<and> (?dt = []
                       \<or> (\<exists>b x. sqlite_date L ?dt = Some b
                                \<and> sqlite_date L (date r) = Some x \<and> day_le x b))) (sales st))
                \<and> sorted_wrt (\<lambda>a b. sale_id b \<le> sale_id a) rows
                \<and> set rows \<subseteq> set (sales st) \<and> length rows \<le> length (sales st))"
      by blast
  qed
  have 4: "?s = [] \<and> ?df \<noteq> [] \<and> fromisoformat L ?df \<noteq> None \<and> sqlite_date L ?df = Some a
       \<and> ?dt \<noteq> [] \<and> fromisoformat L ?dt \<noteq> None \<and> sqlite_date L ?dt = Some b
      \<longrightarrow> fst (refresh_sales L flt st) = None
          \<and> sales_tree (snd (refresh_sales L flt st))
              = map (tree_values st) (order_by_sale_id_desc (filter (\<lambda>r.
                    \<exists>x. sqlite_date L (date r) = Some x \<and> day_le a x \<and> day_le x b) (sales st)))"
  proof (intro impI)
    assume h: "?s = [] \<and> ?df \<noteq> [] \<and> fromisoformat L ?df \<noteq> None \<and> sqlite_date L ?df = Some a
       \<and> ?dt \<noteq> [] \<and> fromisoformat L ?dt \<noteq> None \<and> sqlite_date L ?dt = Some b"
    have w: "sales_where L st ?s ?df ?dt
               = (\<lambda>r. \<exists>x. sqlite_date L (date r) = Some x \<and> day_le a x \<and> day_le x b)"
      by (rule ext) (use h in \<open>auto simp: sales_where_meaning\<close>)
    show "fst (refresh_sales L flt st) = None
          \<and> sales_tree (snd (refresh_sales L flt st))
              = map (tree_values st) (order_by_sale_id_desc (filter (\<lambda>r.
                    \<exists>x. sqlite_date L (date r) = Some x \<and> day_le a x \<and> day_le x b) (sales st)))"
      unfolding w[symmetric] using h by (auto simp: refresh_sales_def Let_def)
  qed
  have 5: "day_le d d" by (cases d) auto
  from 1 2 3 4 5 show ?thesis by blast
qed

text \<open>
  The theorem at concrete filters, on a table of four sales dated 2023-12-31, 2024-01-01,
  2024-01-31 and 2024-02-01. January 2024 shows the sales 3 and 2, both days of the bounds
  included; without the \<open>To\<close> bound the view shows the sales 4, 3 and 2; a \<open>From\<close> bound
  written \<^verbatim>\<open>31/01/2024\<close> and a \<open>To\<close> bound on the 30th of February each end with the dialog
  that names the bound and leave the view as it was.
\<close>

theorem refresh_sales_date_range_witness:
  "fst (refresh_sales sample_library january dated_app) = None
   \<and> map fst (sales_tree (snd (refresh_sales sample_library january dated_app))) = [3, 2]
   \<and> fst (refresh_sales sample_library (january\<lparr>date_to := []\<rparr>) dated_app) = None
   \<and> map fst (sales_tree (snd (refresh_sales sample_library (january\<lparr>date_to := []\<rparr>) dated_app)))
       = [4, 3, 2]
   \<and> fst (refresh_sales sample_library (january\<lparr>date_from := ''31/01/2024''\<rparr>) dated_app)
       = Some (Dialog ''Date Error'' ''From date must be YYYY-MM-DD'')
   \<and> sales_tree (snd (refresh_sales sample_library (january\<lparr>date_from := ''31/01/2024''\<rparr>) dated_app))
       = sales_tree dated_app
   \<and> fst (refresh_sales sample_library (january\<lparr>date_to := ''2024-02-30''\<rparr>) dated_app)
       = Some (Dialog ''Date Error'' ''To date must be YYYY-MM-DD'')
   \<and> sales_tree (snd (refresh_sales sample_library (january\<lparr>date_to := ''2024-02-30''\<rparr>) dated_app))
       = sales_tree dated_app"
proof -
  have st: "strip ''2024-01-01'' = ''2024-01-01''" "strip ''2024-01-31'' = ''2024-01-31''"
    "strip ''31/01/2024'' = ''31/01/2024''" "strip ''2024-02-30'' = ''2024-02-30''"
    by (simp_all add: strip_def is_space_def)
  have iso: "iso_day ''2024-01-01'' = Some (2024, 1, 1)" "iso_day ''2024-01-31'' = Some (2024, 1, 31)"
    "iso_day ''31/01/2024'' = None" "iso_day ''2024-02-30'' = None"
    "iso_day ''2023-12-31'' = Some (2023, 12, 31)" "iso_day ''2024-02-01'' = Some (2024, 2, 1)"
    by (simp_all add: date_eval)
  have lib: "fromisoformat sample_library = (\<lambda>s. map_option fst (iso_day s))"
    "sqlite_date sample_library = iso_day"
    by (simp_all add: sample_library_def)
  have flt: "strip (search_var january) = []" "strip (date_from january) = ''2024-01-01''"
    "strip (date_to january) = ''2024-01-31''"
    by (simp_all add: january_def st sample_strip)
  have a: "strip (search_var january) = []
       \<and> strip (date_from january) \<noteq> [] \<and> fromisoformat sample_library (strip (date_from january)) \<noteq> None
       \<and> sqlite_date sample_library (strip (date_from january)) = Some (2024, 1, 1)
       \<and> strip (date_to january) \<noteq> [] \<and> fromisoformat sample_library (strip (date_to january)) \<noteq> None
       \<and> sqlite_date sample_library (strip (date_to january)) = Some (2024, 1, 31)"
    by (simp add: flt lib iso)
  let ?f0 = "january\<lparr>date_to := []\<rparr>"
  have flt0: "strip (search_var ?f0) = []" "strip (date_from ?f0) = ''2024-01-01''"
    "strip (date_to ?f0) = []"
    by (simp_all add: january_def st sample_strip)
  have a0: "(strip (date_from ?f0) = []
          \<or> (fromisoformat sample_library (strip (date_from ?f0)) \<noteq> None
              \<and> sqlite_date sample_library (strip (date_from ?f0)) \<noteq> None))
       \<and> (strip (date_to ?f0) = []
          \<or> (fromisoformat sample_library (strip (date_to ?f0)) \<noteq> None
              \<and> sqlite_date sample_library (strip (date_to ?f0)) \<noteq> None))"
    unfolding flt0 by (simp add: lib iso)
  let ?f1 = "january\<lparr>date_from := ''31/01/2024''\<rparr>"
  have b: "strip (date_from ?f1) \<noteq> [] \<and> fromisoformat sample_library (strip (date_from ?f1)) = None"
    by (simp add: st lib iso)
  let ?f2 = "january\<lparr>date_to := ''2024-02-30''\<rparr>"
  have c: "(strip (date_from ?f2) = [] \<or> fromisoformat sample_library (strip (date_from ?f2)) \<noteq> None)
       \<and> strip (date_to ?f2) \<noteq> [] \<and> fromisoformat sample_library (strip (date_to ?f2)) = None"
    by (simp add: january_def st lib iso)
  from refresh_sales_date_range[of january sample_library dated_app "(2024, 1, 1)" "(2024, 1, 31)"] a
  have 1: "fst (refresh_sales sample_library january dated_app) = None"
    and t: "sales_tree (snd (refresh_sales sample_library january dated_app))
              = map (tree_values dated_app) (order_by_sale_id_desc (filter (\<lambda>r.
                    \<exists>x. sqlite_date sample_library (date r) = Some x
                        \<and> day_le (2024, 1, 1) x \<and> day_le x (2024, 1, 31)) (sales dated_app)))"
    by blast+
  have 2: "map fst (sales_tree (snd (refresh_sales sample_library january dated_app))) = [3, 2]"
    unfolding t lib
    by (simp add: dated_app_def sample_sale_def sale_values_fields iso order_by_sale_id_desc_def
        tree_values_def comp_def)
  from refresh_sales_date_range[of ?f0 sample_library dated_app] a0
  obtain rows where 3: "fst (refresh_sales sample_library ?f0 dated_app) = None"
    and t0: "sales_tree (snd (refresh_sales sample_library ?f0 dated_app))
              = map (tree_values dated_app) rows"
    and rows: "rows = order_by_sale_id_desc (filter (\<lambda>r.
                    (strip (search_var ?f0) = []
                       \<or> like_null (client_name dated_app r) (''%'' @ strip (search_var ?f0) @ ''%'')
                       \<or> like_null (product_name dated_app r) (''%'' @ strip (search_var ?f0) @ ''%'')
                       \<or> sql_like (''%'' @ strip (search_var ?f0) @ ''%'') (invoice_no r)
                       \<or> sql_like (''%'' @ strip (search_var ?f0) @ ''%'') (status r))
                    \<and> (strip (date_from ?f0) = []
                       \<or> (\<exists>a x. sqlite_date sample_library (strip (date_from ?f0)) = Some a
                                \<and> sqlite_date sample_library (date r) = Some x \<and> day_le a x))
                    \<and> (strip (date_to ?f0) = []
                       \<or> (\<exists>b x. sqlite_date sample_library (strip (date_to ?f0)) = Some b
                                \<and> sqlite_date sample_library (date r) = Some x \<and> day_le x b)))
                  (sales dated_app))"
    by blast
  have "map sale_id rows = [4, 3, 2]"
    unfolding rows flt0 lib
    by (simp add: dated_app_def sample_sale_def sale_values_fields iso order_by_sale_id_desc_def)
  then have 4: "map fst (sales_tree (snd (refresh_sales sample_library ?f0 dated_app))) = [4, 3, 2]"
    unfolding t0 by (simp add: tree_values_def comp_def)
  from refresh_sales_date_range[of ?f1 sample_library dated_app] b
  have 5: "fst (refresh_sales sample_library ?f1 dated_app)
       = Some (Dialog ''Date Error'' ''From date must be YYYY-MM-DD'')"
    and 6: "sales_tree (snd (refresh_sales sample_library ?f1 dated_app)) = sales_tree dated_app"
    by blast+
  from refresh_sales_date_range[of ?f2 sample_library dated_app] c
  have 7: "fst (refresh_sales sample_library ?f2 dated_app)
       = Some (Dialog ''Date Error'' ''To date must be YYYY-MM-DD'')"
    and 8: "sales_tree (snd (refresh_sales sample_library ?f2 dated_app)) = sales_tree dated_app"
    by blast+
  from 1 2 3 4 5 6 7 8 show ?thesis by blast
qed

end
